theory Spec2Isabelle
  imports Complex_Main "HOL-Library.Word"
begin

section \<open>Python values, errors and strings\<close>

text \<open>
  The controller is one Python class, \<open>Ender\<close>, in \<open>Ender.py\<close>. Exceptions are values of
  \<open>error\<close>: \<open>RuntimeError\<close> is raised by \<open>__init__\<close> when no port is found, \<open>ValueError\<close> by
  the builtin \<open>float\<close> on text that is no number, \<open>UnicodeDecodeError\<close> by \<open>bytes.decode\<close>,
  \<open>SerialException\<close> by the constructor \<open>serial.Serial\<close> and \<open>FileNotFoundError\<close> by \<open>open\<close>.
\<close>

datatype error = RuntimeError | ValueError | UnicodeDecodeError | SerialException | FileNotFoundError

text \<open>
  The values the translator's variables \<open>x\<close>, \<open>y\<close>, \<open>z\<close> and \<open>feedrate\<close> hold: \<open>None\<close>, an
  \<open>int\<close> (the feedrate parameters are annotated \<open>int\<close>) or a \<open>float\<close>. The type \<open>'f\<close> of
  floats, the builtin \<open>float\<close> (\<open>float_of\<close> below, \<open>None\<close> where Python raises
  \<open>ValueError\<close>) and the float product (\<open>fmul\<close>) are parameters of the model.
\<close>

datatype 'f pyval = PyNone | PyInt int | PyFloat 'f

text \<open>\<open>s.split(sep)\<close> for a separator of one character: never empty, \<open>''''.split(sep) = ['''']\<close>.\<close>

fun str_split :: "char \<Rightarrow> string \<Rightarrow> string list" where
  "str_split sep [] = [[]]"
| "str_split sep (c # cs) =
     (if c = sep then [] # str_split sep cs
      else (case str_split sep cs of [] \<Rightarrow> [[c]] | w # ws \<Rightarrow> (c # w) # ws))"

text \<open>\<open>s.startswith(p)\<close> and \<open>sub in s\<close>, on any sequence.\<close>

definition startswith :: "'a list \<Rightarrow> 'a list \<Rightarrow> bool" where
  "startswith s p = (take (length p) s = p)"

fun py_in :: "'a list \<Rightarrow> 'a list \<Rightarrow> bool" where
  "py_in sub [] = (sub = [])"
| "py_in sub (c # s) = (startswith (c # s) sub \<or> py_in sub s)"

section \<open>The motion sink and the session\<close>

text \<open>
  The calls the class makes on the G-code builder it inherits from (gscrib's
  \<open>GCodeBuilder\<close>), in the order made. Keyword arguments are kept as written at the call:
  \<open>self.rapid(x=x, y=y, z=z)\<close> passes three keywords, whose values may be \<open>None\<close>, and
  \<open>self.rapid(x=x, y=y, z=z, F=feedrate)\<close> passes four. What the builder does with a call
  (bounds checks, serial transport) is outside this file.
\<close>

type_synonym 'f kwargs = "(string \<times> 'f pyval) list"

datatype 'f call =
    Rapid "'f kwargs"
  | Move "'f kwargs"
  | Write string
  | SetAxis "'f kwargs"
  | SetBounds string "int list" "int list"
  | SetLengthUnits string
  | SetTimeUnits string
  | AbsoluteMode
  | SuperInit string int
  | Teardown
  | Flush

text \<open>
  The attributes of an \<open>Ender\<close> object that the methods read or write. \<open>ode_content\<close> does
  not exist before the first \<open>print_from_gcode\<close>, hence the option. \<open>warnings\<close> collects
  the messages given to \<open>self._logger.warning\<close>; the \<open>debug\<close> and \<open>info\<close> messages are not
  modelled.
\<close>

record 'f session =
  serial_port :: string
  sink :: "'f call list"
  warnings :: "string list"
  ode_content :: "string list option"

section \<open>Session operations\<close>

text \<open>
  \<open>use_workpiece_coordinate_system(coord_num, zero_coords)\<close>, \<open>coord_num\<close> an \<open>int\<close>: the
  range check, the \<open>match\<close> on the nine cases, the write, and the optional \<open>set_axis\<close>.
  The method \<open>get_position\<close> only queries the builder and is not modelled.
\<close>

definition gcode_cmd :: "int \<Rightarrow> string" where
  "gcode_cmd coord_num =
     (if coord_num = 1 then ''G54''
      else if coord_num = 2 then ''G55''
      else if coord_num = 3 then ''G56''
      else if coord_num = 4 then ''G57''
      else if coord_num = 5 then ''G58''
      else if coord_num = 6 then ''G59''
      else if coord_num = 7 then ''G59.1''
      else if coord_num = 8 then ''G59.2''
      else ''G59.3'')"

definition use_workpiece_coordinate_system :: "int \<Rightarrow> bool \<Rightarrow> 'f session \<Rightarrow> 'f session" where
  "use_workpiece_coordinate_system coord_num zero_coords s =
     (if \<not> (1 \<le> coord_num \<and> coord_num \<le> 9)
      then s\<lparr>warnings := warnings s @ [''available coordinate systems: 1-9'']\<rparr>
      else let s1 = s\<lparr>sink := sink s @ [Write (gcode_cmd coord_num)]\<rparr>
           in if zero_coords
              then s1\<lparr>sink := sink s1 @ [SetAxis [(''x'', PyInt 0), (''y'', PyInt 0)]]\<rparr>
              else s1)"

definition use_machine_coordinate_system :: "'f session \<Rightarrow> 'f session" where
  "use_machine_coordinate_system s = s\<lparr>sink := sink s @ [Write ''G53'']\<rparr>"

definition print :: "bool \<Rightarrow> 'f session \<Rightarrow> 'f session" where
  "print disconnect s =
     (if disconnect then s\<lparr>sink := sink s @ [Teardown]\<rparr> else s\<lparr>sink := sink s @ [Flush]\<rparr>)"

section \<open>The translator: \<open>print_from_gcode\<close>\<close>

text \<open>
  The parameters \<open>rapid_feedrate\<close>, \<open>move_feedrate\<close> (default \<open>None\<close>) and \<open>scale\<close>
  (a float, default \<open>1.0\<close>).
\<close>

record 'f policy =
  rapid_feedrate :: "'f pyval"
  move_feedrate :: "'f pyval"
  scale :: 'f

text \<open>
  One \<open>if coord.startswith(c): v = float(coord.split(c)[1])*scale\<close> for a spatial field:
  the new value of the variable, or the \<open>ValueError\<close> of \<open>float\<close>. A token that starts with
  \<open>c\<close> splits into at least two parts (\<open>str_split_startswith\<close> below), so the index 1 is
  in range.
\<close>

definition scaled_field ::
  "(string \<Rightarrow> 'f option) \<Rightarrow> ('f \<Rightarrow> 'f \<Rightarrow> 'f) \<Rightarrow> 'f \<Rightarrow> char \<Rightarrow> string \<Rightarrow> 'f pyval \<Rightarrow> error + 'f pyval" where
  "scaled_field float_of fmul scl c coord cur =
     (if startswith coord [c]
      then (case float_of (str_split c coord ! 1) of
              None \<Rightarrow> Inl ValueError
            | Some v \<Rightarrow> Inr (PyFloat (fmul v scl)))
      else Inr cur)"

text \<open>
  \<open>if coord.startswith("F") and cond: feedrate = float(coord.split("F")[1])\<close>. Python's
  \<open>and\<close> does not evaluate \<open>float\<close> when \<open>cond\<close> is false.
\<close>

definition feed_field ::
  "(string \<Rightarrow> 'f option) \<Rightarrow> bool \<Rightarrow> string \<Rightarrow> 'f pyval \<Rightarrow> error + 'f pyval" where
  "feed_field float_of cond coord cur =
     (if startswith coord ''F'' \<and> cond
      then (case float_of (str_split (CHR ''F'') coord ! 1) of
              None \<Rightarrow> Inl ValueError
            | Some v \<Rightarrow> Inr (PyFloat v))
      else Inr cur)"

text \<open>
  The loop \<open>for coord in splits[1:]\<close> of both branches, on the variables
  \<open>(x, y, z, feedrate)\<close>. The branches differ in the guard of the \<open>F\<close> field only, which
  is the parameter \<open>guard\<close>, a predicate of the current \<open>feedrate\<close>: the \<open>G0\<close> branch tests
  \<open>feedrate is None\<close>, the \<open>G1\<close> branch \<open>move_feedrate is None\<close>.
\<close>

fun coords_loop ::
  "(string \<Rightarrow> 'f option) \<Rightarrow> ('f \<Rightarrow> 'f \<Rightarrow> 'f) \<Rightarrow> 'f \<Rightarrow> ('f pyval \<Rightarrow> bool) \<Rightarrow> string list \<Rightarrow>
   'f pyval \<times> 'f pyval \<times> 'f pyval \<times> 'f pyval \<Rightarrow>
   error + ('f pyval \<times> 'f pyval \<times> 'f pyval \<times> 'f pyval)" where
  "coords_loop float_of fmul scl guard [] st = Inr st"
| "coords_loop float_of fmul scl guard (coord # rest) (x, y, z, feedrate) =
     (case scaled_field float_of fmul scl (CHR ''X'') coord x of Inl e \<Rightarrow> Inl e | Inr x' \<Rightarrow>
     (case scaled_field float_of fmul scl (CHR ''Y'') coord y of Inl e \<Rightarrow> Inl e | Inr y' \<Rightarrow>
     (case scaled_field float_of fmul scl (CHR ''Z'') coord z of Inl e \<Rightarrow> Inl e | Inr z' \<Rightarrow>
     (case feed_field float_of (guard feedrate) coord feedrate of Inl e \<Rightarrow> Inl e | Inr f' \<Rightarrow>
        coords_loop float_of fmul scl guard rest (x', y', z', f')))))"

text \<open>The keywords of the final call: \<open>F\<close> is passed only when \<open>feedrate\<close> is not \<open>None\<close>.\<close>

definition move_kwargs :: "'f pyval \<times> 'f pyval \<times> 'f pyval \<times> 'f pyval \<Rightarrow> 'f kwargs" where
  "move_kwargs st =
     (case st of (x, y, z, feedrate) \<Rightarrow>
        if feedrate = PyNone then [(''x'', x), (''y'', y), (''z'', z)]
        else [(''x'', x), (''y'', y), (''z'', z), (''F'', feedrate)])"

text \<open>
  The body of \<open>match splits[0]\<close> on the tokens \<open>splits\<close> of one line: the call made, none
  for a line that is no \<open>G0\<close> or \<open>G1\<close>, or the exception.
\<close>

definition translate_splits ::
  "(string \<Rightarrow> 'f option) \<Rightarrow> ('f \<Rightarrow> 'f \<Rightarrow> 'f) \<Rightarrow> 'f policy \<Rightarrow> string list \<Rightarrow> error + 'f call option" where
  "translate_splits float_of fmul pol splits =
     (if hd splits = ''G0'' then
        (case coords_loop float_of fmul (scale pol) (\<lambda>feedrate. feedrate = PyNone) (tl splits)
                (PyNone, PyNone, PyNone, rapid_feedrate pol) of
           Inl e \<Rightarrow> Inl e
         | Inr st \<Rightarrow> Inr (Some (Rapid (move_kwargs st))))
      else if hd splits = ''G1'' then
        (case coords_loop float_of fmul (scale pol) (\<lambda>feedrate. move_feedrate pol = PyNone) (tl splits)
                (PyNone, PyNone, PyNone, move_feedrate pol) of
           Inl e \<Rightarrow> Inl e
         | Inr st \<Rightarrow> Inr (Some (Move (move_kwargs st))))
      else Inr None)"

text \<open>\<open>splits = line.split(";")[0].split(" ")\<close>, then the match.\<close>

definition translate_line ::
  "(string \<Rightarrow> 'f option) \<Rightarrow> ('f \<Rightarrow> 'f \<Rightarrow> 'f) \<Rightarrow> 'f policy \<Rightarrow> string \<Rightarrow> error + 'f call option" where
  "translate_line float_of fmul pol line =
     translate_splits float_of fmul pol (str_split (CHR '' '') (hd (str_split (CHR '';'') line)))"

text \<open>
  The loop \<open>for line in self.ode_content\<close>: each call reaches the sink before the next
  line is read, and an exception leaves the loop with the calls made so far.
\<close>

fun translate_lines ::
  "(string \<Rightarrow> 'f option) \<Rightarrow> ('f \<Rightarrow> 'f \<Rightarrow> 'f) \<Rightarrow> 'f policy \<Rightarrow> string list \<Rightarrow> 'f session \<Rightarrow>
   'f session \<times> error option" where
  "translate_lines float_of fmul pol [] s = (s, None)"
| "translate_lines float_of fmul pol (line # rest) s =
     (case translate_line float_of fmul pol line of
        Inl e \<Rightarrow> (s, Some e)
      | Inr None \<Rightarrow> translate_lines float_of fmul pol rest s
      | Inr (Some c) \<Rightarrow> translate_lines float_of fmul pol rest (s\<lparr>sink := sink s @ [c]\<rparr>))"

text \<open>
  \<open>f.readlines()\<close> on the text of a file opened with mode \<open>"r"\<close>: the text is read with
  universal newlines (\<open>\r\n\<close> and \<open>\r\<close> become \<open>\n\<close>), and every line keeps its final
  \<open>\n\<close>; only the last line may lack one.
\<close>

fun universal_newlines :: "string \<Rightarrow> string" where
  "universal_newlines [] = []"
| "universal_newlines [c] = (if c = CHR 0x0D then [CHR 0x0A] else [c])"
| "universal_newlines (c # d # cs) =
     (if c = CHR 0x0D \<and> d = CHR 0x0A then CHR 0x0A # universal_newlines cs
      else if c = CHR 0x0D then CHR 0x0A # universal_newlines (d # cs)
      else c # universal_newlines (d # cs))"

fun keepends :: "string \<Rightarrow> string list" where
  "keepends [] = []"
| "keepends (c # cs) =
     (if c = CHR 0x0A then [c] # keepends cs
      else (case keepends cs of [] \<Rightarrow> [[c]] | l # ls \<Rightarrow> (c # l) # ls))"

definition readlines :: "string \<Rightarrow> string list" where
  "readlines content = keepends (universal_newlines content)"

text \<open>
  \<open>print_from_gcode(f_path, rapid_feedrate, move_feedrate, scale)\<close>. The file system is
  a map from paths to the files' text; \<open>open\<close> of a path that is not there raises. The
  result is the session after the call and the exception that ended it, if any.
\<close>

definition print_from_gcode ::
  "(string \<Rightarrow> 'f option) \<Rightarrow> ('f \<Rightarrow> 'f \<Rightarrow> 'f) \<Rightarrow> (string \<rightharpoonup> string) \<Rightarrow> string \<Rightarrow> 'f policy \<Rightarrow>
   'f session \<Rightarrow> 'f session \<times> error option" where
  "print_from_gcode float_of fmul fs f_path pol s =
     (case fs f_path of
        None \<Rightarrow> (s, Some FileNotFoundError)
      | Some content \<Rightarrow>
          translate_lines float_of fmul pol (readlines content)
            (s\<lparr>ode_content := Some (readlines content)\<rparr>))"

section \<open>Decimal numerals: an instance of \<open>float\<close>\<close>

text \<open>
  The general theorems below hold for every \<open>float_of\<close> and \<open>fmul\<close>. The concrete lines
  of the specification are evaluated with \<open>decimal_float\<close>, which reads what \<open>float\<close>
  accepts as a finite decimal numeral (surrounding whitespace, a sign, digits, a
  fraction, an exponent) and returns the rational it denotes, with the exact product.
  On the numerals used here (small integers) binary floating point is exact as well.
  The spellings \<open>inf\<close> and \<open>nan\<close> and digits grouped by underscores, which \<open>float\<close> also
  accepts, are outside this instance.
\<close>

definition is_space :: "char \<Rightarrow> bool" where
  "is_space c = (let n = (of_char c :: nat)
                 in (9 \<le> n \<and> n \<le> 13) \<or> n = 32 \<or> n = 133 \<or> n = 160)"

definition is_digit :: "char \<Rightarrow> bool" where
  "is_digit c = (48 \<le> (of_char c :: nat) \<and> (of_char c :: nat) \<le> 57)"

definition strip :: "string \<Rightarrow> string" where
  "strip s = rev (dropWhile is_space (rev (dropWhile is_space s)))"

definition digits_val :: "string \<Rightarrow> nat" where
  "digits_val ds = foldl (\<lambda>a c. 10 * a + (of_char c - 48)) 0 ds"

fun sign_split :: "string \<Rightarrow> bool \<times> string" where
  "sign_split [] = (False, [])"
| "sign_split (c # cs) =
     (if c = CHR ''-'' then (True, cs) else if c = CHR ''+'' then (False, cs) else (False, c # cs))"

definition exponent :: "string \<Rightarrow> rat option" where
  "exponent r =
     (case r of
        [] \<Rightarrow> Some 1
      | c # t \<Rightarrow>
          if c = CHR ''e'' \<or> c = CHR ''E'' then
            (case sign_split t of (neg, ds) \<Rightarrow>
               if ds \<noteq> [] \<and> list_all is_digit ds
               then Some (if neg then 1 / 10 ^ digits_val ds else 10 ^ digits_val ds)
               else None)
          else None)"

definition decimal_float :: "string \<Rightarrow> rat option" where
  "decimal_float s =
     (case sign_split (strip s) of (neg, r0) \<Rightarrow>
        let ip = takeWhile is_digit r0;
            r1 = dropWhile is_digit r0;
            fp = (case r1 of [] \<Rightarrow> [] | c # t \<Rightarrow> if c = CHR ''.'' then takeWhile is_digit t else []);
            r2 = (case r1 of [] \<Rightarrow> [] | c # t \<Rightarrow> if c = CHR ''.'' then dropWhile is_digit t else r1)
        in if ip = [] \<and> fp = [] then None
           else (case exponent r2 of
                   None \<Rightarrow> None
                 | Some e \<Rightarrow>
                     Some ((if neg then - 1 else 1) * of_nat (digits_val (ip @ fp))
                           / 10 ^ length fp * e)))"

section \<open>The port resolver: \<open>__find_serial_port\<close> and \<open>__init__\<close>\<close>

text \<open>An entry of \<open>comports()\<close>: the two attributes the search reads.\<close>

record port =
  device :: string
  manufacturer :: "string option"

text \<open>
  What the host does when \<open>serial.Serial(port.device, 115200, timeout=0.5)\<close> is called:
  the constructor raises, or returns a handle for which \<open>isOpen()\<close> is false, or the
  handle is open and \<open>read_all()\<close> returns the given bytes after the request.
\<close>

datatype probe = OpenRaises | NotOpen | Reply "8 word list"

record host =
  platform :: string
  comports :: "port list"
  serial :: "string \<Rightarrow> probe"

text \<open>The serial traffic of the search, in order, each event with the device it is on.\<close>

datatype event =
    SerialOpen string
  | SerialWrite string "8 word list"
  | SerialReadAll string
  | SerialClose string

text \<open>
  \<open>response.decode()\<close>: strict UTF-8, the text as a list of code points. An overlong
  form, a surrogate, a code point above \<open>0x10FFFF\<close>, a stray continuation byte and
  a truncated sequence all raise \<open>UnicodeDecodeError\<close> (here \<open>None\<close>).
\<close>

definition continuation :: "8 word \<Rightarrow> bool" where
  "continuation b = (0x80 \<le> b \<and> b \<le> 0xBF)"

definition low6 :: "8 word \<Rightarrow> nat" where
  "low6 b = unat b mod 64"

fun decode :: "8 word list \<Rightarrow> nat list option" where
  "decode [] = Some []"
| "decode (b # bs) =
     (if b < 0x80 then map_option ((#) (unat b)) (decode bs)
      else if 0xC2 \<le> b \<and> b \<le> 0xDF then
        (case bs of
           b1 # r \<Rightarrow>
             if continuation b1
             then map_option ((#) (unat b mod 32 * 64 + low6 b1)) (decode r)
             else None
         | _ \<Rightarrow> None)
      else if 0xE0 \<le> b \<and> b \<le> 0xEF then
        (case bs of
           b1 # b2 # r \<Rightarrow>
             if continuation b1 \<and> continuation b2
                \<and> (b = 0xE0 \<longrightarrow> 0xA0 \<le> b1) \<and> (b = 0xED \<longrightarrow> b1 \<le> 0x9F)
             then map_option ((#) (unat b mod 16 * 4096 + low6 b1 * 64 + low6 b2)) (decode r)
             else None
         | _ \<Rightarrow> None)
      else if 0xF0 \<le> b \<and> b \<le> 0xF4 then
        (case bs of
           b1 # b2 # b3 # r \<Rightarrow>
             if continuation b1 \<and> continuation b2 \<and> continuation b3
                \<and> (b = 0xF0 \<longrightarrow> 0x90 \<le> b1) \<and> (b = 0xF4 \<longrightarrow> b1 \<le> 0x8F)
             then map_option
                    ((#) (unat b mod 8 * 262144 + low6 b1 * 4096 + low6 b2 * 64 + low6 b3))
                    (decode r)
             else None
         | _ \<Rightarrow> None)
      else None)"

text \<open>The literals \<open>"Marlin"\<close> (as code points) and \<open>b"M115\r\n"\<close>.\<close>

definition marlin :: "nat list" where
  "marlin = map of_char ''Marlin''"

definition m115 :: "8 word list" where
  "m115 = [0x4D, 0x31, 0x31, 0x35, 0x0D, 0x0A]"

text \<open>
  The loop \<open>for port in ports\<close> of \<open>__find_serial_port\<close>, with the serial traffic so far.
  The method returns the device of the first match, returns \<open>None\<close> when it falls off
  the end of the loop, and has no exception handler: what \<open>Serial\<close> or \<open>decode\<close> raises
  leaves the method. \<open>time.sleep(0.5)\<close> is not modelled.
\<close>

fun find_loop :: "host \<Rightarrow> port list \<Rightarrow> event list \<Rightarrow> event list \<times> (error + string option)" where
  "find_loop h [] tr = (tr, Inr None)"
| "find_loop h (p # ports) tr =
     (if platform h = ''linux'' \<and> \<not> py_in ''ttyUSB'' (device p) then find_loop h ports tr
      else if manufacturer p \<noteq> None then find_loop h ports tr
      else (case serial h (device p) of
              OpenRaises \<Rightarrow> (tr, Inl SerialException)
            | NotOpen \<Rightarrow> find_loop h ports (tr @ [SerialOpen (device p)])
            | Reply response \<Rightarrow>
                let tr' = tr @ [SerialOpen (device p), SerialWrite (device p) m115,
                                SerialReadAll (device p), SerialClose (device p)]
                in (case decode response of
                      None \<Rightarrow> (tr', Inl UnicodeDecodeError)
                    | Some text \<Rightarrow>
                        if py_in marlin text then (tr', Inr (Some (device p)))
                        else find_loop h ports tr')))"

definition find_serial_port :: "host \<Rightarrow> event list \<times> (error + string option)" where
  "find_serial_port h = find_loop h (comports h) []"

text \<open>
  \<open>Ender.__init__\<close> without further arguments: the search, the \<open>RuntimeError\<close> when it
  returned \<open>None\<close>, then the builder's own constructor and the configuration calls.
\<close>

definition init_calls :: "string \<Rightarrow> 'f call list" where
  "init_calls dev =
     [SuperInit dev 115200,
      SetBounds ''bed-temperature'' [0] [100],
      SetBounds ''feed-rate'' [50] [7000],
      SetBounds ''axes'' [0, 0, 0] [235, 235, 90],
      SetLengthUnits ''mm'',
      SetTimeUnits ''s'',
      AbsoluteMode,
      Write ''M203 X5000 Y5000 Z10.0'',
      Write ''M204 P1000 T1000'']"

definition init :: "host \<Rightarrow> event list \<times> (error + 'f session)" where
  "init h =
     (case find_serial_port h of
        (tr, Inl e) \<Rightarrow> (tr, Inl e)
      | (tr, Inr None) \<Rightarrow> (tr, Inl RuntimeError)
      | (tr, Inr (Some dev)) \<Rightarrow>
          (tr, Inr \<lparr>serial_port = dev, sink = init_calls dev, warnings = [], ode_content = None\<rparr>))"

section \<open>Notions used in the statements\<close>

text \<open>The first token of a line (\<open>splits[0]\<close>) and the tokens after it (\<open>splits[1:]\<close>).\<close>

definition kind :: "string \<Rightarrow> string" where
  "kind line = hd (str_split (CHR '' '') (hd (str_split (CHR '';'') line)))"

definition tokens :: "string \<Rightarrow> string list" where
  "tokens line = tl (str_split (CHR '' '') (hd (str_split (CHR '';'') line)))"

text \<open>The text handed to \<open>float\<close> for a token that starts with the letter \<open>c\<close>.\<close>

definition field_text :: "char \<Rightarrow> string \<Rightarrow> string" where
  "field_text c coord = str_split c coord ! 1"

text \<open>The last token that starts with the letter \<open>c\<close>, if there is one.\<close>

definition last_field :: "char \<Rightarrow> string list \<Rightarrow> string option" where
  "last_field c toks =
     (case filter (\<lambda>t. startswith t [c]) toks of [] \<Rightarrow> None | t # ts \<Rightarrow> Some (last (t # ts)))"

text \<open>The keywords of a call, and the value passed for one (\<open>None\<close>: not passed).\<close>

fun kwargs_of :: "'f call \<Rightarrow> 'f kwargs" where
  "kwargs_of (Rapid kw) = kw"
| "kwargs_of (Move kw) = kw"
| "kwargs_of (SetAxis kw) = kw"
| "kwargs_of _ = []"

definition kwarg :: "'f call \<Rightarrow> string \<Rightarrow> 'f pyval option" where
  "kwarg c k = map_of (kwargs_of c) k"

text \<open>
  A spatial keyword carries \<open>None\<close> when no token has its letter, and otherwise the
  number of the last such token times the scale.
\<close>

definition spatial_field ::
  "(string \<Rightarrow> 'f option) \<Rightarrow> ('f \<Rightarrow> 'f \<Rightarrow> 'f) \<Rightarrow> 'f \<Rightarrow> char \<Rightarrow> string list \<Rightarrow> 'f pyval option \<Rightarrow> bool" where
  "spatial_field float_of fmul scl c toks v =
     (case last_field c toks of
        None \<Rightarrow> v = Some PyNone
      | Some t \<Rightarrow>
          (case float_of (field_text c t) of
             None \<Rightarrow> False
           | Some a \<Rightarrow> v = Some (PyFloat (fmul a scl))))"

text \<open>
  The feedrate keyword is not passed, or carries the parameter \<open>override\<close>, or the number
  of an \<open>F\<close> token as \<open>float\<close> returned it.
\<close>

definition feed_unscaled ::
  "(string \<Rightarrow> 'f option) \<Rightarrow> 'f pyval \<Rightarrow> string list \<Rightarrow> 'f pyval option \<Rightarrow> bool" where
  "feed_unscaled float_of override toks v =
     (v = None \<or> v = Some override
      \<or> list_ex (\<lambda>t. startswith t ''F''
                      \<and> (case float_of (field_text (CHR ''F'') t) of
                            None \<Rightarrow> False
                          | Some a \<Rightarrow> v = Some (PyFloat a))) toks)"

text \<open>
  A token that starts with the letter \<open>c\<close> and whose field text, the part between
  that letter and its next occurrence in the token (all the rest when there is none),
  is rejected by \<open>float\<close>: in \<open>XabcX1\<close> the field text is \<open>abc\<close>, in \<open>X1X2\<close> it is \<open>1\<close>.
\<close>

definition malformed_field :: "(string \<Rightarrow> 'f option) \<Rightarrow> char \<Rightarrow> string \<Rightarrow> bool" where
  "malformed_field float_of c t = (startswith t [c] \<and> float_of (field_text c t) = None)"

text \<open>
  A \<open>G0\<close> or \<open>G1\<close> line with a malformed field that the translator reads: any \<open>X\<close>, \<open>Y\<close>
  or \<open>Z\<close> token, an \<open>F\<close> token of a \<open>G1\<close> line when \<open>move_feedrate\<close> is \<open>None\<close>, and the
  first \<open>F\<close> token of a \<open>G0\<close> line when \<open>rapid_feedrate\<close> is \<open>None\<close>.
\<close>

definition bad_line :: "(string \<Rightarrow> 'f option) \<Rightarrow> 'f policy \<Rightarrow> string \<Rightarrow> bool" where
  "bad_line float_of pol line =
     ((kind line = ''G0'' \<or> kind line = ''G1'')
      \<and> (list_ex (\<lambda>t. malformed_field float_of (CHR ''X'') t
                       \<or> malformed_field float_of (CHR ''Y'') t
                       \<or> malformed_field float_of (CHR ''Z'') t) (tokens line)
         \<or> (kind line = ''G1'' \<and> move_feedrate pol = PyNone
            \<and> list_ex (malformed_field float_of (CHR ''F'')) (tokens line))
         \<or> (kind line = ''G0'' \<and> rapid_feedrate pol = PyNone
            \<and> (case filter (\<lambda>t. startswith t ''F'') (tokens line) of
                  [] \<Rightarrow> False
                | t # ts \<Rightarrow> malformed_field float_of (CHR ''F'') t))))"

text \<open>The calls that the lines of a list make, line by line.\<close>

definition calls_of ::
  "(string \<Rightarrow> 'f option) \<Rightarrow> ('f \<Rightarrow> 'f \<Rightarrow> 'f) \<Rightarrow> 'f policy \<Rightarrow> string list \<Rightarrow> 'f call list" where
  "calls_of float_of fmul pol ls =
     concat (map (\<lambda>l. case translate_line float_of fmul pol l of
                         Inr (Some c) \<Rightarrow> [c]
                       | _ \<Rightarrow> []) ls)"

text \<open>The lines before the first line at which the translator raises.\<close>

definition before_failure ::
  "(string \<Rightarrow> 'f option) \<Rightarrow> ('f \<Rightarrow> 'f \<Rightarrow> 'f) \<Rightarrow> 'f policy \<Rightarrow> string list \<Rightarrow> string list" where
  "before_failure float_of fmul pol ls =
     takeWhile (\<lambda>l. \<not> isl (translate_line float_of fmul pol l)) ls"

text \<open>
  The candidates of the search. A candidate is \<open>filtered\<close> when the loop passes to the
  next one before opening it. It is \<open>passed_over\<close> when the loop goes on to the next
  candidate without raising, it \<open>matches\<close> when its reply decodes to a text with the
  signature, and it is \<open>undecodable\<close> when its reply is no UTF-8. \<open>probe_events\<close> is the
  serial traffic of one candidate.
\<close>

definition filtered :: "host \<Rightarrow> port \<Rightarrow> bool" where
  "filtered h p =
     ((platform h = ''linux'' \<and> \<not> py_in ''ttyUSB'' (device p)) \<or> manufacturer p \<noteq> None)"

definition passed_over :: "host \<Rightarrow> port \<Rightarrow> bool" where
  "passed_over h p =
     (filtered h p
      \<or> (case serial h (device p) of
            OpenRaises \<Rightarrow> False
          | NotOpen \<Rightarrow> True
          | Reply response \<Rightarrow>
              (case decode response of None \<Rightarrow> False | Some text \<Rightarrow> \<not> py_in marlin text)))"

definition matches :: "host \<Rightarrow> port \<Rightarrow> bool" where
  "matches h p =
     (\<not> filtered h p
      \<and> (case serial h (device p) of
            OpenRaises \<Rightarrow> False
          | NotOpen \<Rightarrow> False
          | Reply response \<Rightarrow>
              (case decode response of None \<Rightarrow> False | Some text \<Rightarrow> py_in marlin text)))"

definition undecodable :: "host \<Rightarrow> port \<Rightarrow> bool" where
  "undecodable h p =
     (\<not> filtered h p
      \<and> (case serial h (device p) of
            OpenRaises \<Rightarrow> False
          | NotOpen \<Rightarrow> False
          | Reply response \<Rightarrow> decode response = None))"

definition probe_events :: "host \<Rightarrow> port \<Rightarrow> event list" where
  "probe_events h p =
     (if filtered h p then []
      else (case serial h (device p) of
              OpenRaises \<Rightarrow> []
            | NotOpen \<Rightarrow> [SerialOpen (device p)]
            | Reply response \<Rightarrow>
                [SerialOpen (device p), SerialWrite (device p) m115,
                 SerialReadAll (device p), SerialClose (device p)]))"

section \<open>Concrete inputs\<close>

text \<open>Policies: the defaults, scale 2, and the two overrides of 1500.\<close>

definition default_policy :: "rat policy" where
  "default_policy = \<lparr>rapid_feedrate = PyNone, move_feedrate = PyNone, scale = 1\<rparr>"

definition double_policy :: "rat policy" where
  "double_policy = \<lparr>rapid_feedrate = PyNone, move_feedrate = PyNone, scale = 2\<rparr>"

definition rapid_override :: "rat policy" where
  "rapid_override = \<lparr>rapid_feedrate = PyInt 1500, move_feedrate = PyNone, scale = 1\<rparr>"

definition move_override :: "rat policy" where
  "move_override = \<lparr>rapid_feedrate = PyNone, move_feedrate = PyInt 1500, scale = 1\<rparr>"

text \<open>A session after \<open>__init__\<close> on \<open>/dev/ttyUSB0\<close>.\<close>

definition fresh :: "rat session" where
  "fresh = \<lparr>serial_port = ''/dev/ttyUSB0'', sink = init_calls ''/dev/ttyUSB0'', warnings = [],
            ode_content = None\<rparr>"

text \<open>
  Files: a program of three lines, the second malformed; a bare \<open>G1\<close> line; a line
  with a malformed feedrate; a single move.
\<close>

definition job_text :: string where
  "job_text = ''G1 X10 Y20 F300'' @ [CHR 0x0A] @ ''G1 Xabc'' @ [CHR 0x0A] @ ''G0 X5'' @ [CHR 0x0A]"

definition bare_text :: string where
  "bare_text = ''G1'' @ [CHR 0x0A]"

definition files :: "string \<rightharpoonup> string" where
  "files = [''job.gcode'' \<mapsto> job_text, ''bare.gcode'' \<mapsto> bare_text,
            ''feed.gcode'' \<mapsto> ''G1 Fabc'', ''move.gcode'' \<mapsto> ''G1 X10 Y20 F300'' @ [CHR 0x0A]]"

text \<open>
  Hosts. The printer answers \<open>M115\<close> with a text that has the signature; another
  device answers with the byte \<open>0xFF\<close>, which is no UTF-8, and a third with \<open>ok\<close>.
\<close>

definition marlin_reply :: "8 word list" where
  "marlin_reply = [0x46, 0x49, 0x52, 0x4D, 0x57, 0x41, 0x52, 0x45, 0x5F, 0x4E, 0x41, 0x4D, 0x45,
                   0x3A, 0x4D, 0x61, 0x72, 0x6C, 0x69, 0x6E, 0x0A]"

definition usb0 :: port where
  "usb0 = \<lparr>device = ''/dev/ttyUSB0'', manufacturer = None\<rparr>"

definition usb1 :: port where
  "usb1 = \<lparr>device = ''/dev/ttyUSB1'', manufacturer = None\<rparr>"

definition usb2 :: port where
  "usb2 = \<lparr>device = ''/dev/ttyUSB2'', manufacturer = None\<rparr>"

definition acm0 :: port where
  "acm0 = \<lparr>device = ''/dev/ttyACM0'', manufacturer = Some ''Arduino''\<rparr>"

definition noisy_serial :: "string \<Rightarrow> probe" where
  "noisy_serial dev = (if dev = ''/dev/ttyUSB0'' then Reply [0xFF] else Reply marlin_reply)"

definition quiet_serial :: "string \<Rightarrow> probe" where
  "quiet_serial dev =
     (if dev = ''/dev/ttyUSB0'' then Reply [0x6F, 0x6B, 0x0A]
      else if dev = ''/dev/ttyUSB1'' then Reply marlin_reply
      else NotOpen)"

definition silent_serial :: "string \<Rightarrow> probe" where
  "silent_serial dev = (if dev = ''/dev/ttyUSB0'' then Reply [0x6F, 0x6B, 0x0A] else NotOpen)"

definition noisy_host :: host where
  "noisy_host = \<lparr>platform = ''linux'', comports = [usb0, usb1], serial = noisy_serial\<rparr>"

definition lone_noisy_host :: host where
  "lone_noisy_host = \<lparr>platform = ''linux'', comports = [usb0], serial = noisy_serial\<rparr>"

definition mixed_host :: host where
  "mixed_host = \<lparr>platform = ''linux'', comports = [acm0, usb0, usb1], serial = noisy_serial\<rparr>"

definition garbled_host :: host where
  "garbled_host = \<lparr>platform = ''win32'', comports = [usb0, usb2], serial = noisy_serial\<rparr>"

definition quiet_host :: host where
  "quiet_host = \<lparr>platform = ''linux'', comports = [acm0, usb0, usb1, usb2], serial = quiet_serial\<rparr>"

definition silent_host :: host where
  "silent_host = \<lparr>platform = ''linux'', comports = [acm0, usb0, usb2], serial = silent_serial\<rparr>"

section \<open>Facts about the string functions and the field loop\<close>

lemma str_split_nonempty: "str_split sep s \<noteq> []"
  by (induction s) (auto split: list.splits)

lemma str_split_absent: "sep \<notin> set s \<Longrightarrow> str_split sep s = [s]"
  by (induction s) (auto split: list.splits)

lemma str_split_startswith: "startswith coord [c] \<Longrightarrow> 1 < length (str_split c coord)"
  by (cases coord) (auto simp: startswith_def str_split_nonempty)

lemma str_split_field: "c \<notin> set txt \<Longrightarrow> str_split c (c # txt) ! 1 = txt"
  by (simp add: str_split_absent)

lemma translate_line_splits:
  "translate_line float_of fmul pol line = translate_splits float_of fmul pol (kind line # tokens line)"
  by (simp add: translate_line_def kind_def tokens_def str_split_nonempty)

lemma startswith_single: "startswith t [c] \<longleftrightarrow> t \<noteq> [] \<and> hd t = c"
  by (cases t) (auto simp: startswith_def)

lemma last_field_Nil: "last_field c [] = None"
  by (simp add: last_field_def)

lemma last_field_Cons:
  "last_field c (t # toks) =
     (case last_field c toks of
        Some u \<Rightarrow> Some u
      | None \<Rightarrow> if startswith t [c] then Some t else None)"
  by (auto simp: last_field_def split: list.splits)

lemma scaled_field_Inl: "scaled_field float_of fmul scl c coord cur = Inl e \<Longrightarrow> e = ValueError"
  by (auto simp: scaled_field_def split: if_splits option.splits)

lemma feed_field_Inl: "feed_field float_of cond coord cur = Inl e \<Longrightarrow> e = ValueError"
  by (auto simp: feed_field_def split: if_splits option.splits)

lemma coords_loop_Inl:
  "coords_loop float_of fmul scl guard toks st = Inl e \<Longrightarrow> e = ValueError"
proof (induction toks arbitrary: st)
  case Nil
  then show ?case by simp
next
  case (Cons t toks)
  obtain x y z f where st: "st = (x, y, z, f)" by (cases st) auto
  from Cons.prems show ?case
    unfolding st
    by (auto split: sum.splits dest: scaled_field_Inl feed_field_Inl Cons.IH)
qed

lemma scaled_field_Inr:
  "scaled_field float_of fmul scl c coord cur = Inr v \<Longrightarrow>
     (if startswith coord [c]
      then (case float_of (field_text c coord) of None \<Rightarrow> False | Some a \<Rightarrow> v = PyFloat (fmul a scl))
      else v = cur)"
  by (auto simp: scaled_field_def field_text_def split: if_splits option.splits)

lemma coords_loop_X:
  "coords_loop float_of fmul scl guard toks (x0, y0, z0, f0) = Inr (x, y, z, f) \<Longrightarrow>
     (case last_field (CHR ''X'') toks of
        None \<Rightarrow> x = x0
      | Some t \<Rightarrow> (case float_of (field_text (CHR ''X'') t) of
                    None \<Rightarrow> False | Some a \<Rightarrow> x = PyFloat (fmul a scl)))"
proof (induction toks arbitrary: x0 y0 z0 f0)
  case Nil
  then show ?case by (simp add: last_field_Nil)
next
  case (Cons t toks)
  from Cons.prems obtain x1 y1 z1 f1 where
    step: "scaled_field float_of fmul scl (CHR ''X'') t x0 = Inr x1" and
    rest: "coords_loop float_of fmul scl guard toks (x1, y1, z1, f1) = Inr (x, y, z, f)"
    by (auto split: sum.splits)
  from Cons.IH [OF rest] scaled_field_Inr [OF step] show ?case
    by (auto simp: last_field_Cons split: option.splits if_splits)
qed

lemma coords_loop_Y:
  "coords_loop float_of fmul scl guard toks (x0, y0, z0, f0) = Inr (x, y, z, f) \<Longrightarrow>
     (case last_field (CHR ''Y'') toks of
        None \<Rightarrow> y = y0
      | Some t \<Rightarrow> (case float_of (field_text (CHR ''Y'') t) of
                    None \<Rightarrow> False | Some a \<Rightarrow> y = PyFloat (fmul a scl)))"
proof (induction toks arbitrary: x0 y0 z0 f0)
  case Nil
  then show ?case by (simp add: last_field_Nil)
next
  case (Cons t toks)
  from Cons.prems obtain x1 y1 z1 f1 where
    step: "scaled_field float_of fmul scl (CHR ''Y'') t y0 = Inr y1" and
    rest: "coords_loop float_of fmul scl guard toks (x1, y1, z1, f1) = Inr (x, y, z, f)"
    by (auto split: sum.splits)
  from Cons.IH [OF rest] scaled_field_Inr [OF step] show ?case
    by (auto simp: last_field_Cons split: option.splits if_splits)
qed

lemma coords_loop_Z:
  "coords_loop float_of fmul scl guard toks (x0, y0, z0, f0) = Inr (x, y, z, f) \<Longrightarrow>
     (case last_field (CHR ''Z'') toks of
        None \<Rightarrow> z = z0
      | Some t \<Rightarrow> (case float_of (field_text (CHR ''Z'') t) of
                    None \<Rightarrow> False | Some a \<Rightarrow> z = PyFloat (fmul a scl)))"
proof (induction toks arbitrary: x0 y0 z0 f0)
  case Nil
  then show ?case by (simp add: last_field_Nil)
next
  case (Cons t toks)
  from Cons.prems obtain x1 y1 z1 f1 where
    step: "scaled_field float_of fmul scl (CHR ''Z'') t z0 = Inr z1" and
    rest: "coords_loop float_of fmul scl guard toks (x1, y1, z1, f1) = Inr (x, y, z, f)"
    by (auto split: sum.splits)
  from Cons.IH [OF rest] scaled_field_Inr [OF step] show ?case
    by (auto simp: last_field_Cons split: option.splits if_splits)
qed

lemma feed_field_Inr:
  "feed_field float_of cond coord cur = Inr v \<Longrightarrow>
     v = cur \<or> (startswith coord ''F'' \<and> cond
                \<and> (case float_of (field_text (CHR ''F'') coord) of None \<Rightarrow> False | Some a \<Rightarrow> v = PyFloat a))"
  by (auto simp: feed_field_def field_text_def split: if_splits option.splits)

lemma coords_loop_F:
  "coords_loop float_of fmul scl guard toks (x0, y0, z0, f0) = Inr (x, y, z, f) \<Longrightarrow>
     f = f0 \<or> list_ex (\<lambda>t. startswith t ''F''
                 \<and> (case float_of (field_text (CHR ''F'') t) of
                       None \<Rightarrow> False | Some a \<Rightarrow> f = PyFloat a)) toks"
proof (induction toks arbitrary: x0 y0 z0 f0)
  case Nil
  then show ?case by simp
next
  case (Cons t toks)
  from Cons.prems obtain x1 y1 z1 f1 where
    step: "feed_field float_of (guard f0) t f0 = Inr f1" and
    rest: "coords_loop float_of fmul scl guard toks (x1, y1, z1, f1) = Inr (x, y, z, f)"
    by (auto split: sum.splits)
  from Cons.IH [OF rest] feed_field_Inr [OF step] show ?case
    by (auto split: option.splits)
qed

text \<open>With a guard that is false at the initial feedrate, the feedrate never changes and F tokens are not read.\<close>

lemma coords_loop_override:
  "\<not> guard f0 \<Longrightarrow> coords_loop float_of fmul scl guard toks (x0, y0, z0, f0) = Inr (x, y, z, f) \<Longrightarrow> f = f0"
proof (induction toks arbitrary: x0 y0 z0)
  case Nil
  then show ?case by simp
next
  case (Cons t toks)
  from Cons.prems obtain x1 y1 z1 where
    rest: "coords_loop float_of fmul scl guard toks (x1, y1, z1, f0) = Inr (x, y, z, f)"
    by (auto simp: feed_field_def split: sum.splits)
  from Cons.IH [OF Cons.prems(1) rest] show ?case .
qed

lemma startswith_F_not:
  "startswith t ''F'' \<Longrightarrow> \<not> startswith t ''X'' \<and> \<not> startswith t ''Y'' \<and> \<not> startswith t ''Z''"
  by (cases t) (auto simp: startswith_def)

lemma coords_loop_filter_F:
  "\<not> guard f0 \<Longrightarrow>
   coords_loop float_of fmul scl guard toks (x0, y0, z0, f0)
     = coords_loop float_of fmul scl guard (filter (\<lambda>t. \<not> startswith t ''F'') toks) (x0, y0, z0, f0)"
proof (induction toks arbitrary: x0 y0 z0)
  case Nil
  then show ?case by simp
next
  case (Cons t toks)
  show ?case
  proof (cases "startswith t ''F''")
    case True
    with startswith_F_not [OF True] Cons show ?thesis
      by (simp add: scaled_field_def feed_field_def)
  next
    case False
    with Cons show ?thesis
      by (auto simp: feed_field_def split: sum.splits)
  qed
qed

lemma concat_keepends: "concat (keepends s) = s"
  by (induction s) (auto split: list.splits)

lemma translate_lines_ode_content:
  "ode_content (fst (translate_lines float_of fmul pol ls s)) = ode_content s"
  by (induction ls arbitrary: s) (auto split: sum.splits option.splits)

lemma move_kwargs_kwarg:
  "kwarg (Rapid (move_kwargs (x, y, z, f))) ''x'' = Some x"
  "kwarg (Rapid (move_kwargs (x, y, z, f))) ''y'' = Some y"
  "kwarg (Rapid (move_kwargs (x, y, z, f))) ''z'' = Some z"
  "kwarg (Rapid (move_kwargs (x, y, z, f))) ''F'' = (if f = PyNone then None else Some f)"
  "kwarg (Move (move_kwargs (x, y, z, f))) ''x'' = Some x"
  "kwarg (Move (move_kwargs (x, y, z, f))) ''y'' = Some y"
  "kwarg (Move (move_kwargs (x, y, z, f))) ''z'' = Some z"
  "kwarg (Move (move_kwargs (x, y, z, f))) ''F'' = (if f = PyNone then None else Some f)"
  by (simp_all add: kwarg_def move_kwargs_def)

lemma translate_line_call:
  assumes "translate_line float_of fmul pol line = Inr (Some c)"
  shows "(kind line = ''G0''
          \<and> (\<exists>x y z f. coords_loop float_of fmul (scale pol) (\<lambda>feedrate. feedrate = PyNone) (tokens line)
                  (PyNone, PyNone, PyNone, rapid_feedrate pol) = Inr (x, y, z, f)
               \<and> c = Rapid (move_kwargs (x, y, z, f))))
       \<or> (kind line = ''G1''
          \<and> (\<exists>x y z f. coords_loop float_of fmul (scale pol) (\<lambda>feedrate. move_feedrate pol = PyNone) (tokens line)
                  (PyNone, PyNone, PyNone, move_feedrate pol) = Inr (x, y, z, f)
               \<and> c = Move (move_kwargs (x, y, z, f))))"
  using assms
  by (auto simp: translate_line_splits translate_splits_def split: if_splits sum.splits)

lemma translate_line_Inl:
  "translate_line float_of fmul pol line = Inl e \<Longrightarrow> e = ValueError"
  by (auto simp: translate_line_splits translate_splits_def split: if_splits sum.splits
      dest: coords_loop_Inl)

lemma move_line_eval:
  "translate_line decimal_float (*) double_policy ''G1 X10 Y20 F300''
     = Inr (Some (Move [(''x'', PyFloat 20), (''y'', PyFloat 40), (''z'', PyNone), (''F'', PyFloat 300)]))"
  by code_simp

lemma rapid_override_eval:
  "translate_line decimal_float (*) rapid_override ''G0 X5''
     = Inr (Some (Rapid [(''x'', PyFloat 5), (''y'', PyNone), (''z'', PyNone), (''F'', PyInt 1500)]))"
  by code_simp

lemma override_feed_eval:
  "translate_line decimal_float (*) rapid_override ''G0 X5 F300 Fabc''
     = Inr (Some (Rapid [(''x'', PyFloat 5), (''y'', PyNone), (''z'', PyNone), (''F'', PyInt 1500)]))"
  "translate_line decimal_float (*) move_override ''G1 F300 Z2 ;up''
     = Inr (Some (Move [(''x'', PyNone), (''y'', PyNone), (''z'', PyFloat 2), (''F'', PyInt 1500)]))"
  by code_simp+

lemma malformed_field_text:
  "malformed_field float_of c t \<Longrightarrow> startswith t [c] \<and> float_of (field_text c t) = None"
  by (simp add: malformed_field_def)

lemma coords_loop_spatial_read:
  "coords_loop float_of fmul scl guard toks (x0, y0, z0, f0) = Inr r \<Longrightarrow>
   t \<in> set toks \<Longrightarrow> startswith t [c] \<Longrightarrow> c = CHR ''X'' \<or> c = CHR ''Y'' \<or> c = CHR ''Z'' \<Longrightarrow>
   float_of (field_text c t) \<noteq> None"
proof (induction toks arbitrary: x0 y0 z0 f0)
  case Nil
  then show ?case by simp
next
  case (Cons u toks)
  from Cons.prems(1) obtain x1 y1 z1 f1 where
    sx: "scaled_field float_of fmul scl (CHR ''X'') u x0 = Inr x1" and
    sy: "scaled_field float_of fmul scl (CHR ''Y'') u y0 = Inr y1" and
    sz: "scaled_field float_of fmul scl (CHR ''Z'') u z0 = Inr z1" and
    rest: "coords_loop float_of fmul scl guard toks (x1, y1, z1, f1) = Inr r"
    by (auto split: sum.splits)
  show ?case
  proof (cases "t = u")
    case True
    with Cons.prems(3,4) scaled_field_Inr [OF sx] scaled_field_Inr [OF sy] scaled_field_Inr [OF sz]
    show ?thesis
      by (auto split: option.splits)
  next
    case False
    with Cons.prems(2) have "t \<in> set toks" by simp
    from Cons.IH [OF rest this Cons.prems(3,4)] show ?thesis .
  qed
qed

lemma coords_loop_feed_read:
  "coords_loop float_of fmul scl (\<lambda>feedrate. True) toks (x0, y0, z0, f0) = Inr r \<Longrightarrow>
   t \<in> set toks \<Longrightarrow> startswith t ''F'' \<Longrightarrow> float_of (field_text (CHR ''F'') t) \<noteq> None"
proof (induction toks arbitrary: x0 y0 z0 f0)
  case Nil
  then show ?case by simp
next
  case (Cons u toks)
  from Cons.prems(1) obtain x1 y1 z1 f1 where
    sf: "feed_field float_of True u f0 = Inr f1" and
    rest: "coords_loop float_of fmul scl (\<lambda>feedrate. True) toks (x1, y1, z1, f1) = Inr r"
    by (auto split: sum.splits)
  show ?case
  proof (cases "t = u")
    case True
    with Cons.prems(3) sf show ?thesis
      by (auto simp: feed_field_def field_text_def split: option.splits)
  next
    case False
    with Cons.prems(2) have "t \<in> set toks" by simp
    from Cons.IH [OF rest this Cons.prems(3)] show ?thesis .
  qed
qed

lemma coords_loop_first_feed_read:
  "coords_loop float_of fmul scl (\<lambda>feedrate. feedrate = PyNone) toks (x0, y0, z0, PyNone) = Inr r \<Longrightarrow>
   filter (\<lambda>t. startswith t ''F'') toks = t # ts \<Longrightarrow>
   float_of (field_text (CHR ''F'') t) \<noteq> None"
proof (induction toks arbitrary: x0 y0 z0)
  case Nil
  then show ?case by simp
next
  case (Cons u toks)
  from Cons.prems(1) obtain x1 y1 z1 f1 where
    sf: "feed_field float_of True u PyNone = Inr f1" and
    rest: "coords_loop float_of fmul scl (\<lambda>feedrate. feedrate = PyNone) toks (x1, y1, z1, f1) = Inr r"
    by (auto split: sum.splits)
  show ?case
  proof (cases "startswith u ''F''")
    case True
    with Cons.prems(2) have "t = u" by simp
    with True sf show ?thesis
      by (auto simp: feed_field_def field_text_def split: option.splits)
  next
    case False
    with sf have f1: "f1 = PyNone"
      by (simp add: feed_field_def)
    from False Cons.prems(2) have "filter (\<lambda>t. startswith t ''F'') toks = t # ts"
      by simp
    from Cons.IH [OF rest [unfolded f1] this] show ?thesis .
  qed
qed

lemma bad_line_raises:
  assumes "bad_line float_of pol line"
  shows "translate_line float_of fmul pol line = Inl ValueError"
proof (cases "translate_line float_of fmul pol line")
  case (Inl e)
  with translate_line_Inl [OF Inl] show ?thesis by simp
next
  case (Inr r)
  from assms have knd: "kind line = ''G0'' \<or> kind line = ''G1''"
    by (simp add: bad_line_def)
  with Inr obtain st guard f0 where
    loop: "coords_loop float_of fmul (scale pol) guard (tokens line) (PyNone, PyNone, PyNone, f0) = Inr st"
    and g0: "kind line = ''G0'' \<Longrightarrow> guard = (\<lambda>feedrate. feedrate = PyNone) \<and> f0 = rapid_feedrate pol"
    and g1: "kind line = ''G1'' \<Longrightarrow> guard = (\<lambda>feedrate. move_feedrate pol = PyNone)"
    by (auto simp: translate_line_splits translate_splits_def split: if_splits sum.splits)
  from assms consider
    (spatial) t c where "t \<in> set (tokens line)" "malformed_field float_of c t"
        "c = CHR ''X'' \<or> c = CHR ''Y'' \<or> c = CHR ''Z''"
    | (linear) t where "kind line = ''G1''" "move_feedrate pol = PyNone"
        "t \<in> set (tokens line)" "malformed_field float_of (CHR ''F'') t"
    | (rapid) t ts where "kind line = ''G0''" "rapid_feedrate pol = PyNone"
        "filter (\<lambda>t. startswith t ''F'') (tokens line) = t # ts"
        "malformed_field float_of (CHR ''F'') t"
    by (auto simp: bad_line_def list_ex_iff split: list.splits)
  then have False
  proof cases
    case spatial
    from coords_loop_spatial_read [OF loop spatial(1) _ spatial(3)]
      malformed_field_text [OF spatial(2)]
    show False by simp
  next
    case linear
    from g1 [OF linear(1)] linear(2) loop
    have "coords_loop float_of fmul (scale pol) (\<lambda>feedrate. True) (tokens line)
            (PyNone, PyNone, PyNone, f0) = Inr st"
      by simp
    from coords_loop_feed_read [OF this linear(3)] malformed_field_text [OF linear(4)]
    show False by simp
  next
    case rapid
    from g0 [OF rapid(1)] rapid(2) loop
    have "coords_loop float_of fmul (scale pol) (\<lambda>feedrate. feedrate = PyNone) (tokens line)
            (PyNone, PyNone, PyNone, PyNone) = Inr st"
      by simp
    from coords_loop_first_feed_read [OF this rapid(3)] malformed_field_text [OF rapid(4)]
    show False by simp
  qed
  then show ?thesis ..
qed

text \<open>Conversely, the translator raises at a line only when the line is bad.\<close>

lemma scaled_field_raises:
  "scaled_field float_of fmul scl c t cur = Inl e \<Longrightarrow> malformed_field float_of c t"
  by (auto simp: scaled_field_def malformed_field_def field_text_def split: if_splits option.splits)

lemma feed_field_raises:
  "feed_field float_of cond t cur = Inl e \<Longrightarrow> cond \<and> malformed_field float_of (CHR ''F'') t"
  by (auto simp: feed_field_def malformed_field_def field_text_def split: if_splits option.splits)

lemma coords_loop_raises_closed:
  "\<not> guard f0 \<Longrightarrow> coords_loop float_of fmul scl guard toks (x0, y0, z0, f0) = Inl e \<Longrightarrow>
   list_ex (\<lambda>t. malformed_field float_of (CHR ''X'') t
                \<or> malformed_field float_of (CHR ''Y'') t
                \<or> malformed_field float_of (CHR ''Z'') t) toks"
proof (induction toks arbitrary: x0 y0 z0)
  case Nil
  then show ?case by simp
next
  case (Cons u toks)
  from Cons.prems(1) have feed: "feed_field float_of (guard f0) u f0 = Inr f0"
    by (simp add: feed_field_def)
  from Cons.prems(2) feed show ?case
    by (auto split: sum.splits dest: scaled_field_raises Cons.IH [OF Cons.prems(1)])
qed

lemma coords_loop_raises_linear:
  "coords_loop float_of fmul scl (\<lambda>feedrate. True) toks (x0, y0, z0, f0) = Inl e \<Longrightarrow>
   list_ex (\<lambda>t. malformed_field float_of (CHR ''X'') t
                \<or> malformed_field float_of (CHR ''Y'') t
                \<or> malformed_field float_of (CHR ''Z'') t) toks
   \<or> list_ex (malformed_field float_of (CHR ''F'')) toks"
proof (induction toks arbitrary: x0 y0 z0 f0)
  case Nil
  then show ?case by simp
next
  case (Cons u toks)
  from Cons.prems show ?case
    by (auto split: sum.splits dest: scaled_field_raises feed_field_raises Cons.IH)
qed

lemma coords_loop_raises_rapid:
  "coords_loop float_of fmul scl (\<lambda>feedrate. feedrate = PyNone) toks (x0, y0, z0, PyNone) = Inl e \<Longrightarrow>
   list_ex (\<lambda>t. malformed_field float_of (CHR ''X'') t
                \<or> malformed_field float_of (CHR ''Y'') t
                \<or> malformed_field float_of (CHR ''Z'') t) toks
   \<or> (case filter (\<lambda>t. startswith t ''F'') toks of
         [] \<Rightarrow> False
       | t # ts \<Rightarrow> malformed_field float_of (CHR ''F'') t)"
proof (induction toks arbitrary: x0 y0 z0)
  case Nil
  then show ?case by simp
next
  case (Cons u toks)
  let ?spatial = "\<lambda>t. malformed_field float_of (CHR ''X'') t
                \<or> malformed_field float_of (CHR ''Y'') t
                \<or> malformed_field float_of (CHR ''Z'') t"
  consider
    (here) "?spatial u"
    | (feed) "malformed_field float_of (CHR ''F'') u"
    | (rest) x1 y1 z1 f1 where "feed_field float_of True u PyNone = Inr f1"
        "coords_loop float_of fmul scl (\<lambda>feedrate. feedrate = PyNone) toks (x1, y1, z1, f1) = Inl e"
    using Cons.prems
    by (auto split: sum.splits dest: scaled_field_raises feed_field_raises)
  then show ?case
  proof cases
    case here
    then show ?thesis by simp
  next
    case feed
    then show ?thesis by (simp add: malformed_field_def)
  next
    case rest
    show ?thesis
    proof (cases "startswith u ''F''")
      case True
      with rest(1) have "f1 \<noteq> PyNone"
        by (auto simp: feed_field_def split: option.splits)
      then have "\<not> (\<lambda>feedrate. feedrate = PyNone) f1" by simp
      from coords_loop_raises_closed [where guard = "\<lambda>feedrate. feedrate = PyNone", OF this rest(2)]
      show ?thesis by simp
    next
      case False
      with rest(1) have "f1 = PyNone"
        by (simp add: feed_field_def)
      with Cons.IH rest(2) False show ?thesis
        by auto
    qed
  qed
qed

lemma raises_bad_line:
  assumes "translate_line float_of fmul pol line = Inl e"
  shows "bad_line float_of pol line"
proof -
  from assms consider
    (rapid) "kind line = ''G0''"
      "coords_loop float_of fmul (scale pol) (\<lambda>feedrate. feedrate = PyNone) (tokens line)
         (PyNone, PyNone, PyNone, rapid_feedrate pol) = Inl e"
    | (linear) "kind line = ''G1''"
      "coords_loop float_of fmul (scale pol) (\<lambda>feedrate. move_feedrate pol = PyNone) (tokens line)
         (PyNone, PyNone, PyNone, move_feedrate pol) = Inl e"
    by (auto simp: translate_line_splits translate_splits_def split: if_splits sum.splits)
  then show ?thesis
  proof cases
    case rapid
    show ?thesis
    proof (cases "rapid_feedrate pol = PyNone")
      case True
      with rapid(2) coords_loop_raises_rapid [of float_of fmul "scale pol" "tokens line"]
      show ?thesis
        using rapid(1) by (auto simp: bad_line_def)
    next
      case False
      from coords_loop_raises_closed [where guard = "\<lambda>feedrate. feedrate = PyNone", OF _ rapid(2)] False
      show ?thesis
        using rapid(1) by (auto simp: bad_line_def)
    qed
  next
    case linear
    show ?thesis
    proof (cases "move_feedrate pol = PyNone")
      case True
      with linear(2) coords_loop_raises_linear [of float_of fmul "scale pol" "tokens line"]
      show ?thesis
        using linear(1) by (auto simp: bad_line_def)
    next
      case False
      from coords_loop_raises_closed [where guard = "\<lambda>feedrate. move_feedrate pol = PyNone",
          OF _ linear(2)] False
      show ?thesis
        using linear(1) by (auto simp: bad_line_def)
    qed
  qed
qed

lemma bad_line_iff_raises:
  "bad_line float_of pol line \<longleftrightarrow> translate_line float_of fmul pol line = Inl ValueError"
  using bad_line_raises [of float_of pol line fmul] raises_bad_line [of float_of fmul pol line ValueError]
  by blast

text \<open>
  Tokens in which the field letter recurs, a later \<open>F\<close> token of a \<open>G0\<close> line and an
  \<open>F\<close> token under \<open>move_feedrate\<close>: only the first of the four lines is bad.
\<close>

lemma recurring_letter_eval:
  "bad_line decimal_float default_policy ''G1 XabcX1''"
  "translate_line decimal_float (*) default_policy ''G1 XabcX1'' = Inl ValueError"
  "\<not> bad_line decimal_float default_policy ''G1 X1X2''"
  "translate_line decimal_float (*) default_policy ''G1 X1X2''
     = Inr (Some (Move [(''x'', PyFloat 1), (''y'', PyNone), (''z'', PyNone)]))"
  "\<not> bad_line decimal_float default_policy ''G0 F100 Fabc''"
  "\<not> bad_line decimal_float move_override ''G1 Fabc''"
  by code_simp+

lemma calls_of_Cons:
  "calls_of float_of fmul pol (l # ls) =
     (case translate_line float_of fmul pol l of Inr (Some c) \<Rightarrow> [c] | _ \<Rightarrow> [])
     @ calls_of float_of fmul pol ls"
  by (simp add: calls_of_def)

lemma translate_lines_before_failure:
  "translate_lines float_of fmul pol ls s
     = (s\<lparr>sink := sink s @ calls_of float_of fmul pol (before_failure float_of fmul pol ls)\<rparr>,
        if before_failure float_of fmul pol ls = ls then None else Some ValueError)"
proof (induction ls arbitrary: s)
  case Nil
  then show ?case by (simp add: before_failure_def calls_of_def)
next
  case (Cons l ls)
  show ?case
  proof (cases "translate_line float_of fmul pol l")
    case (Inl e)
    with translate_line_Inl [OF Inl] show ?thesis
      by (simp add: before_failure_def calls_of_def)
  next
    case (Inr r)
    with Cons [unfolded before_failure_def] show ?thesis
      by (cases r) (simp_all add: before_failure_def calls_of_Cons)
  qed
qed

lemma before_failure_length:
  assumes "i < length ls" "translate_line float_of fmul pol (ls ! i) = Inl e"
  shows "length (before_failure float_of fmul pol ls) \<le> i"
proof (rule ccontr)
  assume "\<not> length (before_failure float_of fmul pol ls) \<le> i"
  then have i: "i < length (takeWhile (\<lambda>l. \<not> isl (translate_line float_of fmul pol l)) ls)"
    by (simp add: before_failure_def)
  then have "takeWhile (\<lambda>l. \<not> isl (translate_line float_of fmul pol l)) ls ! i = ls ! i"
    by (rule takeWhile_nth)
  with i nth_mem [OF i] have "\<not> isl (translate_line float_of fmul pol (ls ! i))"
    by (auto dest: set_takeWhileD)
  with assms(2) show False by simp
qed

lemma job_eval:
  "readlines job_text = [''G1 X10 Y20 F300'' @ [CHR 0x0A], ''G1 Xabc'' @ [CHR 0x0A], ''G0 X5'' @ [CHR 0x0A]]"
  "bad_line decimal_float double_policy (readlines job_text ! 1)"
  "calls_of decimal_float (*) double_policy
     (before_failure decimal_float (*) double_policy (readlines job_text))
     = [Move [(''x'', PyFloat 20), (''y'', PyFloat 40), (''z'', PyNone), (''F'', PyFloat 300)]]"
  by code_simp+

text \<open>The search passes over a run of candidates and goes on with the rest.\<close>

lemma find_loop_passed_over:
  "\<forall>q \<in> set pre. passed_over h q \<Longrightarrow>
   find_loop h (pre @ rest) tr = find_loop h rest (tr @ concat (map (probe_events h) pre))"
proof (induction pre arbitrary: tr)
  case Nil
  then show ?case by simp
next
  case (Cons q pre)
  from Cons.prems have q: "passed_over h q" and pre: "\<forall>q \<in> set pre. passed_over h q"
    by simp_all
  from q have "find_loop h (q # pre @ rest) tr = find_loop h (pre @ rest) (tr @ probe_events h q)"
    by (auto simp: passed_over_def probe_events_def filtered_def split: probe.splits option.splits)
  with Cons.IH [OF pre] show ?case by simp
qed

lemma find_loop_matches:
  "matches h p \<Longrightarrow>
   find_loop h (p # post) tr = (tr @ probe_events h p, Inr (Some (device p)))
   \<and> probe_events h p = [SerialOpen (device p), SerialWrite (device p) m115,
                           SerialReadAll (device p), SerialClose (device p)]"
  by (auto simp: matches_def probe_events_def filtered_def split: probe.splits option.splits)

lemma find_loop_undecodable:
  "undecodable h p \<Longrightarrow>
   find_loop h (p # post) tr = (tr @ probe_events h p, Inl UnicodeDecodeError)
   \<and> probe_events h p = [SerialOpen (device p), SerialWrite (device p) m115,
                           SerialReadAll (device p), SerialClose (device p)]"
  by (auto simp: undecodable_def probe_events_def filtered_def split: probe.splits option.splits)

lemma host_eval:
  "passed_over quiet_host acm0" "passed_over quiet_host usb0" "matches quiet_host usb1"
  "probe_events quiet_host acm0 = []"
  "probe_events quiet_host usb0 = [SerialOpen ''/dev/ttyUSB0'', SerialWrite ''/dev/ttyUSB0'' m115,
     SerialReadAll ''/dev/ttyUSB0'', SerialClose ''/dev/ttyUSB0'']"
  "passed_over silent_host acm0" "passed_over silent_host usb0" "passed_over silent_host usb2"
  "probe_events silent_host acm0 = []"
  "probe_events silent_host usb0 = [SerialOpen ''/dev/ttyUSB0'', SerialWrite ''/dev/ttyUSB0'' m115,
     SerialReadAll ''/dev/ttyUSB0'', SerialClose ''/dev/ttyUSB0'']"
  "probe_events silent_host usb2 = [SerialOpen ''/dev/ttyUSB2'']"
  "passed_over mixed_host acm0" "undecodable mixed_host usb0"
  "probe_events mixed_host acm0 = []"
  by code_simp+

section \<open>Coordinate systems\<close>

text \<open>
  Claim C8. For a selector \<open>n\<close> from 1 to 9, \<open>use_workpiece_coordinate_system\<close> writes the
  one code that the table gives for \<open>n\<close> (\<open>G54\<close> to \<open>G59\<close>, then \<open>G59.1\<close> to \<open>G59.3\<close>) and
  records no warning; with \<open>zero_coords\<close> the call \<open>set_axis(x=0, y=0)\<close> follows the code.
  For any other \<open>n\<close> the sink is left as it was, one warning is recorded, and the
  method returns.
\<close>

theorem select_coordinate_system:
  "(1 \<le> n \<and> n \<le> 9 \<longrightarrow>
      use_workpiece_coordinate_system n False s = s\<lparr>sink := sink s @ [Write (gcode_cmd n)]\<rparr>
      \<and> use_workpiece_coordinate_system n True s
          = s\<lparr>sink := sink s @ [Write (gcode_cmd n), SetAxis [(''x'', PyInt 0), (''y'', PyInt 0)]]\<rparr>
      \<and> gcode_cmd n
          = [''G54'', ''G55'', ''G56'', ''G57'', ''G58'', ''G59'', ''G59.1'', ''G59.2'', ''G59.3'']
            ! nat (n - 1))
   \<and> (\<not> (1 \<le> n \<and> n \<le> 9) \<longrightarrow>
      use_workpiece_coordinate_system n zero_coords s
        = s\<lparr>warnings := warnings s @ [''available coordinate systems: 1-9'']\<rparr>)"
proof -
  have codes: "gcode_cmd n
      = [''G54'', ''G55'', ''G56'', ''G57'', ''G58'', ''G59'', ''G59.1'', ''G59.2'', ''G59.3'']
        ! nat (n - 1)" if "1 \<le> n" "n \<le> 9"
  proof -
    have "{1..9} = {1, 2, 3, 4, 5, 6, 7, 8, 9 :: int}"
      by auto
    with that have "n \<in> {1, 2, 3, 4, 5, 6, 7, 8, 9}"
      by (metis atLeastAtMost_iff)
    then show ?thesis
      by (auto simp: gcode_cmd_def)
  qed
  show ?thesis
    using codes by (simp add: use_workpiece_coordinate_system_def Let_def)
qed

theorem select_coordinate_system_witness:
  "use_workpiece_coordinate_system 7 False fresh
     = fresh\<lparr>sink := sink fresh @ [Write ''G59.1'']\<rparr>
   \<and> use_workpiece_coordinate_system 7 True fresh
     = fresh\<lparr>sink := sink fresh @ [Write ''G59.1'', SetAxis [(''x'', PyInt 0), (''y'', PyInt 0)]]\<rparr>
   \<and> use_workpiece_coordinate_system 10 False fresh
     = fresh\<lparr>warnings := warnings fresh @ [''available coordinate systems: 1-9'']\<rparr>
   \<and> use_workpiece_coordinate_system 0 True fresh
     = fresh\<lparr>warnings := warnings fresh @ [''available coordinate systems: 1-9'']\<rparr>"
  using select_coordinate_system [of 7 fresh False]
    select_coordinate_system [of 10 fresh False]
    select_coordinate_system [of 0 fresh True]
  by simp

section \<open>The retained program\<close>

text \<open>
  Claim C10. A call of \<open>print_from_gcode\<close> on a file that opens leaves the whole text of
  the file, as the list of its lines, in the attribute \<open>ode_content\<close>, whether the run
  ends normally or with an exception. The lines put together are the text read. The
  other methods leave the attribute as it is, so it stays until the next
  \<open>print_from_gcode\<close> replaces it.
\<close>

theorem ode_content_retained:
  assumes "fs f_path = Some content"
  shows "ode_content (fst (print_from_gcode float_of fmul fs f_path pol s)) = Some (readlines content)
       \<and> concat (readlines content) = universal_newlines content
       \<and> ode_content (use_workpiece_coordinate_system n zero_coords
            (fst (print_from_gcode float_of fmul fs f_path pol s))) = Some (readlines content)
       \<and> ode_content (use_machine_coordinate_system
            (fst (print_from_gcode float_of fmul fs f_path pol s))) = Some (readlines content)
       \<and> ode_content (print disconnect
            (fst (print_from_gcode float_of fmul fs f_path pol s))) = Some (readlines content)"
  using assms
  by (simp add: print_from_gcode_def translate_lines_ode_content readlines_def concat_keepends
      use_workpiece_coordinate_system_def use_machine_coordinate_system_def print_def Let_def)

theorem ode_content_retained_witness:
  "files ''job.gcode'' = Some job_text
   \<and> ode_content (fst (print_from_gcode decimal_float (*) files ''job.gcode'' double_policy fresh))
       = Some [''G1 X10 Y20 F300'' @ [CHR 0x0A], ''G1 Xabc'' @ [CHR 0x0A], ''G0 X5'' @ [CHR 0x0A]]
   \<and> ode_content (use_machine_coordinate_system
        (fst (print_from_gcode decimal_float (*) files ''job.gcode'' double_policy fresh)))
       = Some [''G1 X10 Y20 F300'' @ [CHR 0x0A], ''G1 Xabc'' @ [CHR 0x0A], ''G0 X5'' @ [CHR 0x0A]]"
proof -
  have opened: "files ''job.gcode'' = Some job_text"
    by (simp add: files_def)
  have lines: "readlines job_text
      = [''G1 X10 Y20 F300'' @ [CHR 0x0A], ''G1 Xabc'' @ [CHR 0x0A], ''G0 X5'' @ [CHR 0x0A]]"
    by (simp add: readlines_def job_text_def)
  from ode_content_retained [where fs = files and f_path = "''job.gcode''" and content = job_text
      and float_of = decimal_float and fmul = "(*)" and pol = double_policy and s = fresh,
      OF opened] opened lines
  show ?thesis by simp
qed

section \<open>Scaling\<close>

text \<open>
  Claim C1, as amended. The line \<open>G1 X10 Y20 F300\<close>, translated with scale 2 and no
  feedrate parameter, makes exactly one call, \<open>move(x=20.0, y=40.0, z=None, F=300.0)\<close>:
  the keyword \<open>z\<close> is passed with the value \<open>None\<close>. In general, in every call made for a
  line, each of \<open>x\<close>, \<open>y\<close> and \<open>z\<close> is \<open>None\<close> when the line has no token with its letter,
  and otherwise the number of the last such token times the scale; the feedrate is not
  passed, or is the feedrate parameter, or is the number of an \<open>F\<close> token as read,
  without the scale.
\<close>

theorem scale_spatial_fields:
  "translate_line decimal_float (*) double_policy ''G1 X10 Y20 F300''
     = Inr (Some (Move [(''x'', PyFloat 20), (''y'', PyFloat 40), (''z'', PyNone), (''F'', PyFloat 300)]))
   \<and> print_from_gcode decimal_float (*) files ''move.gcode'' double_policy fresh
     = (fresh\<lparr>sink := sink fresh @ [Move [(''x'', PyFloat 20), (''y'', PyFloat 40), (''z'', PyNone),
                                            (''F'', PyFloat 300)]],
              ode_content := Some [''G1 X10 Y20 F300'' @ [CHR 0x0A]]\<rparr>, None)
   \<and> (translate_line float_of fmul pol line = Inr (Some c) \<longrightarrow>
        spatial_field float_of fmul (scale pol) (CHR ''X'') (tokens line) (kwarg c ''x'')
        \<and> spatial_field float_of fmul (scale pol) (CHR ''Y'') (tokens line) (kwarg c ''y'')
        \<and> spatial_field float_of fmul (scale pol) (CHR ''Z'') (tokens line) (kwarg c ''z'')
        \<and> feed_unscaled float_of
             (if kind line = ''G0'' then rapid_feedrate pol else move_feedrate pol)
             (tokens line) (kwarg c ''F''))"
proof (intro conjI impI)
  show "translate_line decimal_float (*) double_policy ''G1 X10 Y20 F300''
     = Inr (Some (Move [(''x'', PyFloat 20), (''y'', PyFloat 40), (''z'', PyNone), (''F'', PyFloat 300)]))"
    by (rule move_line_eval)
  show "print_from_gcode decimal_float (*) files ''move.gcode'' double_policy fresh
     = (fresh\<lparr>sink := sink fresh @ [Move [(''x'', PyFloat 20), (''y'', PyFloat 40), (''z'', PyNone),
                                            (''F'', PyFloat 300)]],
              ode_content := Some [''G1 X10 Y20 F300'' @ [CHR 0x0A]]\<rparr>, None)"
    by code_simp
next
  assume call: "translate_line float_of fmul pol line = Inr (Some c)"
  from translate_line_call [OF call]
  obtain x y z f guard f0 where
    loop: "coords_loop float_of fmul (scale pol) guard (tokens line) (PyNone, PyNone, PyNone, f0)
             = Inr (x, y, z, f)" and
    c: "c = Rapid (move_kwargs (x, y, z, f)) \<or> c = Move (move_kwargs (x, y, z, f))" and
    f0: "f0 = (if kind line = ''G0'' then rapid_feedrate pol else move_feedrate pol)"
    by auto
  from coords_loop_X [OF loop] c
  show "spatial_field float_of fmul (scale pol) (CHR ''X'') (tokens line) (kwarg c ''x'')"
    by (auto simp: spatial_field_def move_kwargs_kwarg split: option.splits)
  from coords_loop_Y [OF loop] c
  show "spatial_field float_of fmul (scale pol) (CHR ''Y'') (tokens line) (kwarg c ''y'')"
    by (auto simp: spatial_field_def move_kwargs_kwarg split: option.splits)
  from coords_loop_Z [OF loop] c
  show "spatial_field float_of fmul (scale pol) (CHR ''Z'') (tokens line) (kwarg c ''z'')"
    by (auto simp: spatial_field_def move_kwargs_kwarg split: option.splits)
  from coords_loop_F [OF loop] c
  have "feed_unscaled float_of f0 (tokens line) (kwarg c ''F'')"
    unfolding feed_unscaled_def
    by (cases "f = PyNone")
       (auto simp: move_kwargs_kwarg list_ex_iff split: option.splits)
  with f0 show "feed_unscaled float_of
             (if kind line = ''G0'' then rapid_feedrate pol else move_feedrate pol)
             (tokens line) (kwarg c ''F'')"
    by simp
qed

theorem scale_spatial_fields_witness:
  "translate_line decimal_float (*) double_policy ''G1 X10 Y20 F300''
     = Inr (Some (Move [(''x'', PyFloat 20), (''y'', PyFloat 40), (''z'', PyNone), (''F'', PyFloat 300)]))
   \<and> spatial_field decimal_float (*) 2 (CHR ''X'') [''X10'', ''Y20'', ''F300''] (Some (PyFloat 20))
   \<and> spatial_field decimal_float (*) 2 (CHR ''Y'') [''X10'', ''Y20'', ''F300''] (Some (PyFloat 40))
   \<and> spatial_field decimal_float (*) 2 (CHR ''Z'') [''X10'', ''Y20'', ''F300''] (Some PyNone)
   \<and> feed_unscaled decimal_float PyNone [''X10'', ''Y20'', ''F300''] (Some (PyFloat 300))"
proof -
  have call: "translate_line decimal_float (*) double_policy ''G1 X10 Y20 F300''
     = Inr (Some (Move [(''x'', PyFloat 20), (''y'', PyFloat 40), (''z'', PyNone), (''F'', PyFloat 300)]))"
    by (rule move_line_eval)
  have toks: "tokens ''G1 X10 Y20 F300'' = [''X10'', ''Y20'', ''F300'']"
    by (simp add: tokens_def)
  have knd: "kind ''G1 X10 Y20 F300'' = ''G1''"
    by (simp add: kind_def)
  from scale_spatial_fields [of decimal_float "(*)" double_policy "''G1 X10 Y20 F300''"
      "Move [(''x'', PyFloat 20), (''y'', PyFloat 40), (''z'', PyNone), (''F'', PyFloat 300)]"]
    call toks knd
  show ?thesis
    by (simp add: double_policy_def kwarg_def)
qed

text \<open>
  The specification's value \<open>y = 20.0\<close> for this line is not what the code computes:
  \<open>Y20\<close> is scaled like \<open>X10\<close>, so \<open>y\<close> is \<open>40.0\<close>, and \<open>z\<close> is passed as \<open>None\<close>.
\<close>

theorem scale_example_counterexample:
  "translate_line decimal_float (*) double_policy ''G1 X10 Y20 F300''
     = Inr (Some (Move [(''x'', PyFloat 20), (''y'', PyFloat 40), (''z'', PyNone), (''F'', PyFloat 300)]))
   \<and> kwarg (Move [(''x'', PyFloat 20), (''y'', PyFloat 40), (''z'', PyNone), (''F'', PyFloat 300 :: rat pyval)]) ''y''
       \<noteq> Some (PyFloat 20)
   \<and> kwarg (Move [(''x'', PyFloat 20), (''y'', PyFloat 40), (''z'', PyNone), (''F'', PyFloat 300 :: rat pyval)]) ''z''
       = Some PyNone"
proof (intro conjI)
  show "translate_line decimal_float (*) double_policy ''G1 X10 Y20 F300''
     = Inr (Some (Move [(''x'', PyFloat 20), (''y'', PyFloat 40), (''z'', PyNone), (''F'', PyFloat 300)]))"
    by (rule move_line_eval)
qed (simp_all add: kwarg_def)

section \<open>Feedrate parameters\<close>

text \<open>
  Claim C7. When \<open>rapid_feedrate\<close> is given, every \<open>G0\<close> line is translated as if it had
  no \<open>F\<close> token: the result is that of the line without its \<open>F\<close> tokens, it is a call or
  an exception, and a call carries \<open>F\<close> with the value of \<open>rapid_feedrate\<close>. The same
  holds for \<open>G1\<close> lines and \<open>move_feedrate\<close>. In particular \<open>G0 X5\<close> with
  \<open>rapid_feedrate=1500\<close> and the default scale makes the call \<open>rapid(x=5.0, y=None,
  z=None, F=1500)\<close>.
\<close>

theorem feedrate_override:
  "(kind line = ''G0'' \<and> rapid_feedrate pol \<noteq> PyNone \<longrightarrow>
      translate_line float_of fmul pol line
        = translate_splits float_of fmul pol (''G0'' # filter (\<lambda>t. \<not> startswith t ''F'') (tokens line))
      \<and> translate_line float_of fmul pol line \<noteq> Inr None
      \<and> (translate_line float_of fmul pol line = Inr (Some c) \<longrightarrow>
            kwarg c ''F'' = Some (rapid_feedrate pol)))
   \<and> (kind line = ''G1'' \<and> move_feedrate pol \<noteq> PyNone \<longrightarrow>
      translate_line float_of fmul pol line
        = translate_splits float_of fmul pol (''G1'' # filter (\<lambda>t. \<not> startswith t ''F'') (tokens line))
      \<and> translate_line float_of fmul pol line \<noteq> Inr None
      \<and> (translate_line float_of fmul pol line = Inr (Some c) \<longrightarrow>
            kwarg c ''F'' = Some (move_feedrate pol)))
   \<and> translate_line decimal_float (*) rapid_override ''G0 X5''
       = Inr (Some (Rapid [(''x'', PyFloat 5), (''y'', PyNone), (''z'', PyNone), (''F'', PyInt 1500)]))"
proof (intro conjI impI)
  assume h: "kind line = ''G0'' \<and> rapid_feedrate pol \<noteq> PyNone"
  then have g: "rapid_feedrate pol \<noteq> PyNone"
    by simp
  from h coords_loop_filter_F [where guard = "\<lambda>feedrate. feedrate = PyNone"
      and ?f0.0 = "rapid_feedrate pol", OF g]
  show "translate_line float_of fmul pol line
        = translate_splits float_of fmul pol (''G0'' # filter (\<lambda>t. \<not> startswith t ''F'') (tokens line))"
    by (simp add: translate_line_splits translate_splits_def)
  from h show "translate_line float_of fmul pol line \<noteq> Inr None"
    by (simp add: translate_line_splits translate_splits_def split: sum.splits)
  assume call: "translate_line float_of fmul pol line = Inr (Some c)"
  from translate_line_call [OF call] h obtain x y z f where
    loop: "coords_loop float_of fmul (scale pol) (\<lambda>feedrate. feedrate = PyNone) (tokens line)
             (PyNone, PyNone, PyNone, rapid_feedrate pol) = Inr (x, y, z, f)" and
    c: "c = Rapid (move_kwargs (x, y, z, f))"
    by auto
  from coords_loop_override [where guard = "\<lambda>feedrate. feedrate = PyNone", OF g loop] h c
  show "kwarg c ''F'' = Some (rapid_feedrate pol)"
    by (simp add: move_kwargs_kwarg)
next
  assume h: "kind line = ''G1'' \<and> move_feedrate pol \<noteq> PyNone"
  then have g: "move_feedrate pol \<noteq> PyNone"
    by simp
  from h coords_loop_filter_F [where guard = "\<lambda>feedrate. move_feedrate pol = PyNone"
      and ?f0.0 = "move_feedrate pol", OF g]
  show "translate_line float_of fmul pol line
        = translate_splits float_of fmul pol (''G1'' # filter (\<lambda>t. \<not> startswith t ''F'') (tokens line))"
    by (simp add: translate_line_splits translate_splits_def)
  from h show "translate_line float_of fmul pol line \<noteq> Inr None"
    by (simp add: translate_line_splits translate_splits_def split: sum.splits)
  assume call: "translate_line float_of fmul pol line = Inr (Some c)"
  from translate_line_call [OF call] h obtain x y z f where
    loop: "coords_loop float_of fmul (scale pol) (\<lambda>feedrate. move_feedrate pol = PyNone) (tokens line)
             (PyNone, PyNone, PyNone, move_feedrate pol) = Inr (x, y, z, f)" and
    c: "c = Move (move_kwargs (x, y, z, f))"
    by auto
  from coords_loop_override [where guard = "\<lambda>feedrate. move_feedrate pol = PyNone", OF g loop] h c
  show "kwarg c ''F'' = Some (move_feedrate pol)"
    by (simp add: move_kwargs_kwarg)
next
  show "translate_line decimal_float (*) rapid_override ''G0 X5''
       = Inr (Some (Rapid [(''x'', PyFloat 5), (''y'', PyNone), (''z'', PyNone), (''F'', PyInt 1500)]))"
    by (rule rapid_override_eval)
qed

theorem feedrate_override_witness:
  "kind ''G0 X5 F300 Fabc'' = ''G0'' \<and> rapid_feedrate rapid_override \<noteq> PyNone
   \<and> translate_line decimal_float (*) rapid_override ''G0 X5 F300 Fabc''
       = translate_splits decimal_float (*) rapid_override [''G0'', ''X5'']
   \<and> kwarg (Rapid [(''x'', PyFloat 5), (''y'', PyNone), (''z'', PyNone), (''F'', PyInt 1500)]) ''F''
       = Some (rapid_feedrate rapid_override)
   \<and> kind ''G1 F300 Z2 ;up'' = ''G1'' \<and> move_feedrate move_override \<noteq> PyNone
   \<and> translate_line decimal_float (*) move_override ''G1 F300 Z2 ;up''
       = translate_splits decimal_float (*) move_override [''G1'', ''Z2'', '''']
   \<and> kwarg (Move [(''x'', PyNone), (''y'', PyNone), (''z'', PyFloat 2), (''F'', PyInt 1500)]) ''F''
       = Some (move_feedrate move_override)"
proof -
  have k0: "kind ''G0 X5 F300 Fabc'' = ''G0''" "tokens ''G0 X5 F300 Fabc'' = [''X5'', ''F300'', ''Fabc'']"
    by (simp_all add: kind_def tokens_def)
  have k1: "kind ''G1 F300 Z2 ;up'' = ''G1''" "tokens ''G1 F300 Z2 ;up'' = [''F300'', ''Z2'', '''']"
    by (simp_all add: kind_def tokens_def)
  have p: "rapid_feedrate rapid_override \<noteq> PyNone" "move_feedrate move_override \<noteq> PyNone"
    by (simp_all add: rapid_override_def move_override_def)
  from feedrate_override [of "''G0 X5 F300 Fabc''" rapid_override decimal_float "(*)"
      "Rapid [(''x'', PyFloat 5), (''y'', PyNone), (''z'', PyNone), (''F'', PyInt 1500)]"]
    feedrate_override [of "''G1 F300 Z2 ;up''" move_override decimal_float "(*)"
      "Move [(''x'', PyNone), (''y'', PyNone), (''z'', PyFloat 2), (''F'', PyInt 1500)]"]
    k0 k1 p override_feed_eval
  show ?thesis
    by (simp add: startswith_def)
qed

section \<open>Repeated fields\<close>

text \<open>
  Claim C2, evaluated. With no feedrate parameter the line \<open>G0 F100 F200\<close> makes a call
  with the first feedrate, \<open>F=100.0\<close>: once \<open>feedrate\<close> is set, the guard
  \<open>feedrate is None\<close> of the \<open>G0\<close> branch is false and later \<open>F\<close> tokens are not read.
  The \<open>G1\<close> branch tests \<open>move_feedrate is None\<close> instead and takes the last,
  \<open>F=200.0\<close>, as both branches do for \<open>X\<close>, \<open>Y\<close> and \<open>Z\<close>.
\<close>

theorem rapid_first_feedrate_wins:
  "translate_line decimal_float (*) default_policy ''G0 F100 F200''
     = Inr (Some (Rapid [(''x'', PyNone), (''y'', PyNone), (''z'', PyNone), (''F'', PyFloat 100)]))
   \<and> translate_line decimal_float (*) default_policy ''G1 F100 F200''
     = Inr (Some (Move [(''x'', PyNone), (''y'', PyNone), (''z'', PyNone), (''F'', PyFloat 200)]))
   \<and> translate_line decimal_float (*) default_policy ''G0 X1 X2 Y3 Y4 Z5 Z6''
     = Inr (Some (Rapid [(''x'', PyFloat 2), (''y'', PyFloat 4), (''z'', PyFloat 6)]))"
  by (intro conjI; code_simp)

section \<open>Lines with no field\<close>

text \<open>
  Claim C6, evaluated. A line that \<open>readlines\<close> returns ends with its newline, and the
  line is split at spaces only, so for a bare \<open>G1\<close> or \<open>G0\<close> line the first token is
  the marker with the newline. It matches no case: the line makes no call. The marker
  alone, as the last line of a file without a final newline, makes the call with
  \<open>x\<close>, \<open>y\<close> and \<open>z\<close> \<open>None\<close> and no feedrate, and a line with a field is not affected,
  since \<open>float\<close> strips the newline.
\<close>

theorem bare_marker_line_skipped:
  "readlines bare_text = [''G1'' @ [CHR 0x0A]]
   \<and> translate_line float_of fmul pol (''G1'' @ [CHR 0x0A]) = Inr None
   \<and> translate_line float_of fmul pol (''G0'' @ [CHR 0x0A]) = Inr None
   \<and> print_from_gcode float_of fmul files ''bare.gcode'' pol s
       = (s\<lparr>ode_content := Some [''G1'' @ [CHR 0x0A]]\<rparr>, None)
   \<and> translate_line decimal_float (*) default_policy ''G1''
       = Inr (Some (Move [(''x'', PyNone), (''y'', PyNone), (''z'', PyNone)]))
   \<and> translate_line decimal_float (*) default_policy (''G1 X1'' @ [CHR 0x0A])
       = Inr (Some (Move [(''x'', PyFloat 1), (''y'', PyNone), (''z'', PyNone)]))"
proof -
  have l: "readlines bare_text = [''G1'' @ [CHR 0x0A]]"
    by (simp add: readlines_def bare_text_def)
  have g1: "translate_line float_of fmul pol (''G1'' @ [CHR 0x0A]) = Inr None"
    by (simp add: translate_line_def translate_splits_def)
  have g0: "translate_line float_of fmul pol (''G0'' @ [CHR 0x0A]) = Inr None"
    by (simp add: translate_line_def translate_splits_def)
  have run: "print_from_gcode float_of fmul files ''bare.gcode'' pol s
       = (s\<lparr>ode_content := Some [''G1'' @ [CHR 0x0A]]\<rparr>, None)"
    using l g1 by (simp add: print_from_gcode_def files_def)
  have e1: "translate_line decimal_float (*) default_policy ''G1''
       = Inr (Some (Move [(''x'', PyNone), (''y'', PyNone), (''z'', PyNone)]))"
    by code_simp
  have e2: "translate_line decimal_float (*) default_policy (''G1 X1'' @ [CHR 0x0A])
       = Inr (Some (Move [(''x'', PyFloat 1), (''y'', PyNone), (''z'', PyNone)]))"
    by code_simp
  from l g1 g0 run e1 e2 show ?thesis by simp
qed

section \<open>Malformed fields\<close>

text \<open>
  Claim C5, as amended. The numeric text of a token is what the translator hands to
  \<open>float\<close>: the part of the token after its leading field letter and before the next
  occurrence of that letter (\<open>coord.split(letter)[1]\<close>). The tokens read are every
  \<open>X\<close>, \<open>Y\<close> and \<open>Z\<close> token, every \<open>F\<close> token of a \<open>G1\<close> line when no \<open>move_feedrate\<close>
  is given, and the first \<open>F\<close> token of a \<open>G0\<close> line when no \<open>rapid_feedrate\<close> is
  given. When a line of the file is a \<open>G0\<close> or \<open>G1\<close> line in which \<open>float\<close> rejects the
  numeric text of a token that is read, \<open>print_from_gcode\<close> ends with \<open>ValueError\<close>.
  The calls made are those of the lines before the first line that raises, which is
  that line or an earlier one: no call is made for the line itself or for any line
  after it. Such lines are the only ones at which the translator raises
  (\<open>bad_line_iff_raises\<close>).
\<close>

theorem malformed_field_aborts:
  assumes "fs f_path = Some content"
    and "i < length (readlines content)"
    and "bad_line float_of pol (readlines content ! i)"
  shows "length (before_failure float_of fmul pol (readlines content)) \<le> i
       \<and> print_from_gcode float_of fmul fs f_path pol s
           = (s\<lparr>sink := sink s @ calls_of float_of fmul pol
                                    (before_failure float_of fmul pol (readlines content)),
                ode_content := Some (readlines content)\<rparr>,
              Some ValueError)"
proof -
  from bad_line_raises [OF assms(3)]
  have raises: "translate_line float_of fmul pol (readlines content ! i) = Inl ValueError" .
  from before_failure_length [OF assms(2) raises]
  have le: "length (before_failure float_of fmul pol (readlines content)) \<le> i" .
  with assms(2) have "before_failure float_of fmul pol (readlines content) \<noteq> readlines content"
    by auto
  with le assms(1) show ?thesis
    by (simp add: print_from_gcode_def translate_lines_before_failure)
qed

theorem malformed_field_aborts_witness:
  "files ''job.gcode'' = Some job_text
   \<and> 1 < length (readlines job_text)
   \<and> bad_line decimal_float double_policy (readlines job_text ! 1)
   \<and> print_from_gcode decimal_float (*) files ''job.gcode'' double_policy fresh
       = (fresh\<lparr>sink := sink fresh @ [Move [(''x'', PyFloat 20), (''y'', PyFloat 40), (''z'', PyNone),
                                              (''F'', PyFloat 300)]],
                ode_content := Some [''G1 X10 Y20 F300'' @ [CHR 0x0A], ''G1 Xabc'' @ [CHR 0x0A],
                                     ''G0 X5'' @ [CHR 0x0A]]\<rparr>,
          Some ValueError)"
proof -
  have opened: "files ''job.gcode'' = Some job_text"
    by (simp add: files_def)
  have len: "1 < length (readlines job_text)"
    by (simp add: job_eval(1))
  note bad = job_eval(2)
  from malformed_field_aborts [where fs = files and f_path = "''job.gcode''" and content = job_text
      and i = 1 and float_of = decimal_float and pol = double_policy and fmul = "(*)" and s = fresh,
      OF opened len bad]
  have "print_from_gcode decimal_float (*) files ''job.gcode'' double_policy fresh
       = (fresh\<lparr>sink := sink fresh @ [Move [(''x'', PyFloat 20), (''y'', PyFloat 40), (''z'', PyNone),
                                              (''F'', PyFloat 300)]],
                ode_content := Some (readlines job_text)\<rparr>,
          Some ValueError)"
    unfolding job_eval(3) by (rule conjunct2)
  with opened len bad show ?thesis
    by (simp add: job_eval(1))
qed

text \<open>
  An \<open>F\<close> token is not read when the feedrate parameter of its kind is given: the
  line \<open>G1 Fabc\<close> with \<open>move_feedrate=1500\<close> raises nothing and makes its call.
\<close>

theorem ignored_feedrate_counterexample:
  "files ''feed.gcode'' = Some ''G1 Fabc''
   \<and> decimal_float ''abc'' = None
   \<and> print_from_gcode decimal_float (*) files ''feed.gcode'' move_override fresh
       = (fresh\<lparr>sink := sink fresh @ [Move [(''x'', PyNone), (''y'', PyNone), (''z'', PyNone),
                                              (''F'', PyInt 1500)]],
                ode_content := Some [''G1 Fabc'']\<rparr>,
          None)"
  by (intro conjI; code_simp)

section \<open>The port search\<close>

text \<open>
  Claim C3, as amended. When the search reaches a candidate whose reply is no UTF-8
  (every earlier candidate was passed over), \<open>response.decode()\<close> raises
  \<open>UnicodeDecodeError\<close> and nothing catches it: the search ends with that exception,
  after the candidate's port was opened, written to, read and closed, no later
  candidate is opened, and \<open>__init__\<close> ends with the same exception.
\<close>

theorem decode_failure_propagates:
  assumes "comports h = pre @ p # post"
    and "\<forall>q \<in> set pre. passed_over h q"
    and "undecodable h p"
  shows "find_serial_port h
           = (concat (map (probe_events h) pre)
                @ [SerialOpen (device p), SerialWrite (device p) m115,
                   SerialReadAll (device p), SerialClose (device p)],
              Inl UnicodeDecodeError)
       \<and> snd (init h :: event list \<times> (error + 'f session)) = Inl UnicodeDecodeError"
  using assms(1) find_loop_passed_over [OF assms(2), of "p # post" "[]"]
    find_loop_undecodable [OF assms(3)]
  by (simp add: find_serial_port_def init_def)

theorem decode_failure_propagates_witness:
  "comports mixed_host = [acm0] @ usb0 # [usb1]
   \<and> passed_over mixed_host acm0 \<and> undecodable mixed_host usb0
   \<and> find_serial_port mixed_host
       = ([SerialOpen ''/dev/ttyUSB0'', SerialWrite ''/dev/ttyUSB0'' m115,
           SerialReadAll ''/dev/ttyUSB0'', SerialClose ''/dev/ttyUSB0''],
          Inl UnicodeDecodeError)
   \<and> snd (init mixed_host :: event list \<times> (error + rat session)) = Inl UnicodeDecodeError"
proof -
  have ports: "comports mixed_host = [acm0] @ usb0 # [usb1]"
    by (simp add: mixed_host_def)
  have pre: "\<forall>q \<in> set [acm0]. passed_over mixed_host q"
    by (simp add: host_eval)
  from decode_failure_propagates [where 'f = rat, OF ports pre host_eval(13)] ports host_eval(12,13)
  show ?thesis
    by (simp add: host_eval usb0_def)
qed

text \<open>
  The decode failure is not treated as a non-match: the candidate after the
  undecodable one has the signature and is never tried.
\<close>

theorem decode_failure_counterexample:
  "comports noisy_host = [usb0, usb1]
   \<and> serial noisy_host (device usb0) = Reply [0xFF]
   \<and> decode [0xFF] = None
   \<and> matches noisy_host usb1
   \<and> find_serial_port noisy_host
       = ([SerialOpen ''/dev/ttyUSB0'', SerialWrite ''/dev/ttyUSB0'' m115,
           SerialReadAll ''/dev/ttyUSB0'', SerialClose ''/dev/ttyUSB0''],
          Inl UnicodeDecodeError)"
  by (intro conjI; code_simp)

text \<open>
  Claim C4, as amended. When every candidate is passed over (it is filtered, or its
  handle is not open, or its reply decodes to a text without the signature), the
  search returns \<open>None\<close> after the traffic of all candidates and \<open>__init__\<close> raises
  \<open>RuntimeError\<close>.
\<close>

theorem no_match_port_not_found:
  assumes "\<forall>p \<in> set (comports h). passed_over h p"
  shows "find_serial_port h = (concat (map (probe_events h) (comports h)), Inr None)
       \<and> (init h :: event list \<times> (error + 'f session))
           = (concat (map (probe_events h) (comports h)), Inl RuntimeError)"
  using find_loop_passed_over [OF assms, of "[]" "[]"]
  by (simp add: find_serial_port_def init_def)

theorem no_match_port_not_found_witness:
  "comports silent_host = [acm0, usb0, usb2]
   \<and> passed_over silent_host acm0 \<and> passed_over silent_host usb0 \<and> passed_over silent_host usb2
   \<and> (init silent_host :: event list \<times> (error + rat session))
       = ([SerialOpen ''/dev/ttyUSB0'', SerialWrite ''/dev/ttyUSB0'' m115,
           SerialReadAll ''/dev/ttyUSB0'', SerialClose ''/dev/ttyUSB0'',
           SerialOpen ''/dev/ttyUSB2''],
          Inl RuntimeError)"
proof -
  have ports: "comports silent_host = [acm0, usb0, usb2]"
    by (simp add: silent_host_def)
  have all: "\<forall>p \<in> set (comports silent_host). passed_over silent_host p"
    by (simp add: ports host_eval)
  from no_match_port_not_found [where 'f = rat, OF all] ports host_eval(6,7,8)
  show ?thesis
    by (simp add: host_eval)
qed

text \<open>
  With a single candidate whose reply is the byte \<open>0xFF\<close>, no reply has the signature,
  and \<open>__init__\<close> ends with \<open>UnicodeDecodeError\<close>, not with \<open>RuntimeError\<close>.
\<close>

theorem no_signature_counterexample:
  "comports lone_noisy_host = [usb0]
   \<and> \<not> matches lone_noisy_host usb0
   \<and> \<not> py_in (map (of_nat \<circ> of_char) ''Marlin'') [0xFF :: 8 word]
   \<and> (init lone_noisy_host :: event list \<times> (error + rat session))
       = ([SerialOpen ''/dev/ttyUSB0'', SerialWrite ''/dev/ttyUSB0'' m115,
           SerialReadAll ''/dev/ttyUSB0'', SerialClose ''/dev/ttyUSB0''],
          Inl UnicodeDecodeError)"
  by (intro conjI; code_simp)

text \<open>
  Claim C9, as amended. When a candidate matches and every candidate before it is
  passed over, the search returns the device of that candidate; the serial traffic is
  that of the candidates up to it and ends with the close of its port, so no later
  candidate is opened.
\<close>

theorem first_match_returned:
  assumes "comports h = pre @ p # post"
    and "\<forall>q \<in> set pre. passed_over h q"
    and "matches h p"
  shows "find_serial_port h
           = (concat (map (probe_events h) pre)
                @ [SerialOpen (device p), SerialWrite (device p) m115,
                   SerialReadAll (device p), SerialClose (device p)],
              Inr (Some (device p)))"
  using assms(1) find_loop_passed_over [OF assms(2), of "p # post" "[]"] find_loop_matches [OF assms(3)]
  by (simp add: find_serial_port_def)

theorem first_match_returned_witness:
  "comports quiet_host = [acm0, usb0] @ usb1 # [usb2]
   \<and> passed_over quiet_host acm0 \<and> passed_over quiet_host usb0 \<and> matches quiet_host usb1
   \<and> find_serial_port quiet_host
       = ([SerialOpen ''/dev/ttyUSB0'', SerialWrite ''/dev/ttyUSB0'' m115,
           SerialReadAll ''/dev/ttyUSB0'', SerialClose ''/dev/ttyUSB0'',
           SerialOpen ''/dev/ttyUSB1'', SerialWrite ''/dev/ttyUSB1'' m115,
           SerialReadAll ''/dev/ttyUSB1'', SerialClose ''/dev/ttyUSB1''],
          Inr (Some ''/dev/ttyUSB1''))"
proof -
  have ports: "comports quiet_host = [acm0, usb0] @ usb1 # [usb2]"
    by (simp add: quiet_host_def)
  have pre: "\<forall>q \<in> set [acm0, usb0]. passed_over quiet_host q"
    by (simp add: host_eval)
  from first_match_returned [OF ports pre host_eval(3)] ports host_eval(1,2,3)
  show ?thesis
    by (simp add: host_eval usb1_def)
qed

text \<open>
  Without the condition on the earlier candidates the device of the first match is
  not returned: an earlier candidate with an undecodable reply ends the search.
\<close>

theorem later_match_counterexample:
  "comports garbled_host = [usb0, usb2]
   \<and> \<not> matches garbled_host usb0
   \<and> matches garbled_host usb2
   \<and> find_serial_port garbled_host
       = ([SerialOpen ''/dev/ttyUSB0'', SerialWrite ''/dev/ttyUSB0'' m115,
           SerialReadAll ''/dev/ttyUSB0'', SerialClose ''/dev/ttyUSB0''],
          Inl UnicodeDecodeError)"
  by (intro conjI; code_simp)

end
